theory Spec2Isabelle
  imports Complex_Main
begin

section \<open>JavaScript values\<close>

text \<open>
  The orchestration layer is written in JavaScript.  A number is an IEEE double: the finite
  ones are rationals, and the three remaining ones are kept apart.  The properties verified
  below only test integrality and compare with constants, so no rounding is involved.
  An object is modelled by its own enumerable properties, in insertion order; its prototype
  is \<^verbatim>\<open>Object.prototype\<close>, whose members a property read and the operator \<^verbatim>\<open>in\<close>
  also find.  A function is kept by its \<^verbatim>\<open>length\<close>.  An object that is neither an
  array, a date nor a function is opaque and has no \<^verbatim>\<open>length\<close>.
\<close>

datatype js_number = Fin rat | NaN | PosInfinity | NegInfinity

datatype js_value =
    JNull
  | JUndefined
  | JNumber js_number
  | JBoolean bool
  | JDate js_number
  | JString string
  | JArray "js_value list"
  | JObject nat
  | JFunction nat

type_synonym js_object = "(string \<times> js_value) list"

text \<open>The engine's column types (\<^verbatim>\<open>__MODULE__.t_dtype\<close>), by name.\<close>

datatype t_dtype =
    DTYPE_INT64 | DTYPE_INT32 | DTYPE_INT16 | DTYPE_INT8
  | DTYPE_FLOAT64 | DTYPE_FLOAT32 | DTYPE_BOOL | DTYPE_TIME | DTYPE_STR

text \<open>
  What the module imports or takes from the language runtime: \<^verbatim>\<open>Number(x)\<close> on strings,
  arrays and opaque objects, \<^verbatim>\<open>is_valid_date\<close> and \<^verbatim>\<open>DateParser.parse\<close> of
  \<^verbatim>\<open>date_parser.js\<close>, \<^verbatim>\<open>String.prototype.toLowerCase\<close>, the string conversion
  \<^verbatim>\<open>"" + x\<close>, and which properties of the members of \<^verbatim>\<open>Object.prototype\<close> are
  functions (\<open>builtin_method name method\<close>: the member called \<open>name\<close> has a function
  under \<open>method\<close>; the static methods of \<^verbatim>\<open>Object\<close> depend on the engine).  They are
  parameters of the model.
\<close>

record js_env =
  to_number :: "js_value \<Rightarrow> js_number"
  is_valid_date :: "string \<Rightarrow> bool"
  date_parse :: "js_value \<Rightarrow> js_value"
  toLowerCase :: "string \<Rightarrow> string"
  to_string :: "js_value \<Rightarrow> string"
  builtin_method :: "string \<Rightarrow> string \<Rightarrow> bool"

fun Number_js :: "js_env \<Rightarrow> js_value \<Rightarrow> js_number" where
  "Number_js env JNull = Fin 0"
| "Number_js env JUndefined = NaN"
| "Number_js env (JNumber n) = n"
| "Number_js env (JBoolean b) = Fin (if b then 1 else 0)"
| "Number_js env (JDate t) = t"
| "Number_js env (JFunction n) = NaN"
| "Number_js env v = to_number env v"

fun isNaN :: "js_number \<Rightarrow> bool" where
  "isNaN NaN = True"
| "isNaN _ = False"

text \<open>\<^verbatim>\<open>x % 1 === 0\<close>: the remainder of a non-finite number is NaN.\<close>

fun is_integral :: "js_number \<Rightarrow> bool" where
  "is_integral (Fin q) = (of_int \<lfloor>q\<rfloor> = q)"
| "is_integral _ = False"

text \<open>\<^verbatim>\<open>x < c\<close> and \<^verbatim>\<open>x > c\<close> for a finite constant \<open>c\<close>.\<close>

fun less_const :: "js_number \<Rightarrow> rat \<Rightarrow> bool" where
  "less_const (Fin q) c = (q < c)"
| "less_const NegInfinity c = True"
| "less_const _ c = False"

fun greater_const :: "js_number \<Rightarrow> rat \<Rightarrow> bool" where
  "greater_const (Fin q) c = (q > c)"
| "greater_const PosInfinity c = True"
| "greater_const _ c = False"

section \<open>Type inference\<close>

text \<open>
  \<^verbatim>\<open>infer_type\<close>, branch by branch; \<open>None\<close> is the JavaScript \<^verbatim>\<open>null\<close>.  A value that
  matches no branch keeps the initial \<^verbatim>\<open>DTYPE_FLOAT64\<close>.
\<close>

definition infer_type :: "js_env \<Rightarrow> js_value \<Rightarrow> t_dtype option" where
  "infer_type env x =
    (case x of
       JNull \<Rightarrow> None
     | JNumber n \<Rightarrow>
         if is_integral n \<and> less_const n 10000 \<and> n \<noteq> Fin 0 then Some DTYPE_INT32
         else Some DTYPE_FLOAT64
     | JBoolean b \<Rightarrow> Some DTYPE_BOOL
     | JDate t \<Rightarrow> Some DTYPE_TIME
     | JString s \<Rightarrow>
         if \<not> isNaN (Number_js env x) \<and> s \<noteq> [] then Some DTYPE_FLOAT64
         else if is_valid_date env s then Some DTYPE_TIME
         else if toLowerCase env s = ''true'' \<or> toLowerCase env s = ''false'' then Some DTYPE_BOOL
         else Some DTYPE_STR
     | _ \<Rightarrow>
         if \<not> isNaN (Number_js env x) then Some DTYPE_FLOAT64
         else Some DTYPE_FLOAT64)"

text \<open>
  \<^verbatim>\<open>get_column_type\<close> reads the numeric value of a type: 1 and 2 are the 64-bit and
  32-bit integers, 9 and 10 the 64-bit and 32-bit floats, 11 the boolean, 12 the time and
  19 the string in the engine's enumeration; any other value gives \<^verbatim>\<open>undefined\<close>.
\<close>

fun get_column_type :: "t_dtype \<Rightarrow> string option" where
  "get_column_type DTYPE_INT64 = Some ''integer''"
| "get_column_type DTYPE_INT32 = Some ''integer''"
| "get_column_type DTYPE_STR = Some ''string''"
| "get_column_type DTYPE_FLOAT32 = Some ''float''"
| "get_column_type DTYPE_FLOAT64 = Some ''float''"
| "get_column_type DTYPE_BOOL = Some ''boolean''"
| "get_column_type DTYPE_TIME = Some ''date''"
| "get_column_type _ = None"

section \<open>Normalisation of the input data\<close>

text \<open>Everything the module throws, and what the opaque engine may throw.\<close>

datatype error =
    EmptyGridNotImplemented
  | UnknownType js_value
  | UnknownDataType
  | TypeError
  | ConflictingOptions
  | IndexNotInData
  | IncorrectArity
  | TableHasContexts
  | EngineError nat

record pdata =
  row_count :: nat
  is_arrow :: bool
  names :: "string list"
  types :: "t_dtype list"
  cdata :: "js_value list list"

text \<open>
  The input of \<^verbatim>\<open>parse_data\<close>: an array of row objects, or an object.  A property of
  the object is an array (column-oriented data), a string or a function (a schema) or any
  other value.
\<close>

datatype table_data = RowData "js_object list" | ObjData js_object

definition hasOwnProperty :: "js_object \<Rightarrow> string \<Rightarrow> bool" where
  "hasOwnProperty obj name = (map_of obj name \<noteq> None)"

text \<open>
  The members of \<^verbatim>\<open>Object.prototype\<close>, which every object literal and every object
  read from JSON inherits: the functions with their \<^verbatim>\<open>length\<close>, and \<^verbatim>\<open>__proto__\<close>,
  which reads as the prototype object itself.  None of them is enumerable, so that
  \<^verbatim>\<open>Object.keys\<close> and \<^verbatim>\<open>for ... in\<close> see the own properties only.
\<close>

definition Object_prototype :: js_object where
  "Object_prototype =
     [(''constructor'', JFunction 1), (''__defineGetter__'', JFunction 2),
      (''__defineSetter__'', JFunction 2), (''hasOwnProperty'', JFunction 1),
      (''__lookupGetter__'', JFunction 1), (''__lookupSetter__'', JFunction 1),
      (''isPrototypeOf'', JFunction 1), (''propertyIsEnumerable'', JFunction 1),
      (''toString'', JFunction 0), (''valueOf'', JFunction 0), (''__proto__'', JObject 0),
      (''toLocaleString'', JFunction 0)]"

text \<open>
  \<^verbatim>\<open>name in obj\<close> and \<^verbatim>\<open>obj[name]\<close>: the own property first, then the member of the
  prototype, \<^verbatim>\<open>undefined\<close> when there is neither.
\<close>

definition has_property :: "js_object \<Rightarrow> string \<Rightarrow> bool" where
  "has_property obj name = (hasOwnProperty obj name \<or> hasOwnProperty Object_prototype name)"

definition get_prop :: "js_object \<Rightarrow> string \<Rightarrow> js_value" where
  "get_prop obj name =
     (case map_of obj name of
        Some v \<Rightarrow> v
      | None \<Rightarrow> (case map_of Object_prototype name of None \<Rightarrow> JUndefined | Some v \<Rightarrow> v))"

definition clean_data :: "js_value \<Rightarrow> js_value" where
  "clean_data v = (if v = JNull \<or> v = JString ''null'' then JNull else v)"

text \<open>
  \<^verbatim>\<open>x.length\<close> and \<^verbatim>\<open>x[i]\<close> of a value used as an array: reading \<^verbatim>\<open>length\<close> of
  \<^verbatim>\<open>null\<close> or \<^verbatim>\<open>undefined\<close> throws, a string is the array of its characters, a
  function has its \<^verbatim>\<open>length\<close> and no element, and a value without \<^verbatim>\<open>length\<close> stops
  every loop \<^verbatim>\<open>i < x.length\<close> at once.
\<close>

fun elements_of :: "js_value \<Rightarrow> error + js_value list" where
  "elements_of (JArray xs) = Inr xs"
| "elements_of (JString s) = Inr (map (\<lambda>c. JString [c]) s)"
| "elements_of JNull = Inl TypeError"
| "elements_of JUndefined = Inl TypeError"
| "elements_of (JFunction n) = Inr (replicate n JUndefined)"
| "elements_of _ = Inr []"

definition transform_data :: "js_env \<Rightarrow> t_dtype option \<Rightarrow> js_value list \<Rightarrow> js_value list" where
  "transform_data env ty xs =
     map (\<lambda>x. let tmp = clean_data x
               in if ty = Some DTYPE_TIME \<and> tmp \<noteq> JNull then JNumber (Number_js env x) else tmp) xs"

subsection \<open>Row-oriented input\<close>

text \<open>
  Discovery of the column names: the keys of the first row, replaced by the keys of a wider
  row found among the first \<^verbatim>\<open>max_check\<close> rows, a window that doubles at each replacement.
\<close>

function discover_names :: "js_object list \<Rightarrow> nat \<Rightarrow> nat \<Rightarrow> string list \<Rightarrow> string list" where
  "discover_names data ix max_check nms =
     (if ix < min max_check (length data) then
        (let next = map fst (data ! ix)
         in if length next > length nms
            then discover_names data (Suc ix) (max_check * 2) next
            else discover_names data (Suc ix) max_check nms)
      else nms)"
  by pat_completeness auto
termination
  by (relation "measure (\<lambda>(data, ix, max_check, nms). length data - ix)") auto

declare discover_names.simps [simp del]

text \<open>
  The sampling loop of a column of row-oriented input.  It returns the type found, if any,
  together with the final value of the loop counter \<^verbatim>\<open>i\<close>, the number of rows examined.
\<close>

function infer_rows ::
  "js_env \<Rightarrow> string \<Rightarrow> js_object list \<Rightarrow> t_dtype option \<Rightarrow> nat \<Rightarrow> t_dtype option \<times> nat" where
  "infer_rows env name data inferredType i =
     (if inferredType = None \<and> i < 100 \<and> i < length data then
        infer_rows env name data
          (if hasOwnProperty (data ! i) name then infer_type env (get_prop (data ! i) name)
           else inferredType)
          (Suc i)
      else (inferredType, i))"
  by pat_completeness auto
termination
  by (relation "measure (\<lambda>(env, name, data, inferredType, i). length data - i)") auto

declare infer_rows.simps [simp del]

text \<open>\<^verbatim>\<open>inferredType || DTYPE_STR\<close>.\<close>

definition or_string :: "t_dtype option \<Rightarrow> t_dtype" where
  "or_string t = (case t of None \<Rightarrow> DTYPE_STR | Some ty \<Rightarrow> ty)"

definition infer_row_column :: "js_env \<Rightarrow> string \<Rightarrow> js_object list \<Rightarrow> t_dtype" where
  "infer_row_column env name data = or_string (fst (infer_rows env name data None 0))"

fun truthy :: "js_value \<Rightarrow> bool" where
  "truthy JNull = False"
| "truthy JUndefined = False"
| "truthy (JNumber n) = (n \<noteq> Fin 0 \<and> n \<noteq> NaN)"
| "truthy (JBoolean b) = b"
| "truthy (JString s) = (s \<noteq> [])"
| "truthy _ = True"

text \<open>
  The value pushed on the column for one row, by the type of the column.  The test is
  \<^verbatim>\<open>name in data[x]\<close>, so that a row without the property still gives the member of
  \<^verbatim>\<open>Object.prototype\<close> of that name, if there is one.
\<close>

definition coerce_cell :: "js_env \<Rightarrow> t_dtype \<Rightarrow> string \<Rightarrow> js_object \<Rightarrow> js_value" where
  "coerce_cell env ty name row =
     (if \<not> has_property row name \<or> clean_data (get_prop row name) = JUndefined then JUndefined
      else
        (let val = clean_data (get_prop row name) in
         if ty = DTYPE_FLOAT64 \<or> ty = DTYPE_INT32 then
           (if val \<noteq> JNull then JNumber (Number_js env val) else val)
         else if ty = DTYPE_BOOL then
           (if val = JNull then JNull
            else case val of
                JString s \<Rightarrow> JBoolean (toLowerCase env s = ''true'')
              | _ \<Rightarrow> JBoolean (truthy val))
         else if ty = DTYPE_TIME then
           (if val \<noteq> JNull then date_parse env val else JNull)
         else
           (if val = JNull then JNull else JString (to_string env val))))"

text \<open>
  \<^verbatim>\<open>val > 2147483647 || val < -2147483648\<close> on the value pushed on an integer column;
  \<^verbatim>\<open>null\<close> compares as 0.
\<close>

definition overflows_int32 :: "js_env \<Rightarrow> string \<Rightarrow> js_object \<Rightarrow> bool" where
  "overflows_int32 env name row =
     (case coerce_cell env DTYPE_INT32 name row of
        JNumber n \<Rightarrow> greater_const n 2147483647 \<or> less_const n (- 2147483648)
      | _ \<Rightarrow> False)"

text \<open>
  One turn of the loop over the names: the state is \<^verbatim>\<open>types\<close>, \<^verbatim>\<open>cdata\<close> and
  \<^verbatim>\<open>row_count\<close>.  With preloaded types the type is read at the index of the name, and a
  missing one is replaced by string without being stored.
\<close>

definition row_column ::
  "js_env \<Rightarrow> bool \<Rightarrow> js_object list \<Rightarrow> nat \<Rightarrow> string \<Rightarrow>
   t_dtype list \<times> js_value list list \<times> nat \<Rightarrow> t_dtype list \<times> js_value list list \<times> nat" where
  "row_column env preloaded data n name st =
     (case st of (tys, cols, rc) \<Rightarrow>
        (let inferredType =
               (if \<not> preloaded then infer_row_column env name data
                else if n < length tys then tys ! n else DTYPE_STR);
             tys1 = (if \<not> preloaded then tys @ [inferredType] else tys);
             col = map (coerce_cell env inferredType name) data;
             tys2 = (if inferredType = DTYPE_INT32 \<and> list_ex (overflows_int32 env name) data
                     then tys1[n := DTYPE_FLOAT64] else tys1)
         in (tys2, cols @ [col], length col)))"

fun row_columns ::
  "js_env \<Rightarrow> bool \<Rightarrow> js_object list \<Rightarrow> nat \<Rightarrow> string list \<Rightarrow>
   t_dtype list \<times> js_value list list \<times> nat \<Rightarrow> t_dtype list \<times> js_value list list \<times> nat" where
  "row_columns env preloaded data n [] st = st"
| "row_columns env preloaded data n (name # rest) st =
     row_columns env preloaded data (Suc n) rest (row_column env preloaded data n name st)"

subsection \<open>Column-oriented input\<close>

text \<open>The sampling loop of a column given as an array.\<close>

function infer_values ::
  "js_env \<Rightarrow> js_value list \<Rightarrow> t_dtype option \<Rightarrow> nat \<Rightarrow> t_dtype option \<times> nat" where
  "infer_values env vals inferredType i =
     (if inferredType = None \<and> i < 100 \<and> i < length vals then
        infer_values env vals (infer_type env (vals ! i)) (Suc i)
      else (inferredType, i))"
  by pat_completeness auto
termination
  by (relation "measure (\<lambda>(env, vals, inferredType, i). length vals - i)") auto

declare infer_values.simps [simp del]

definition infer_value_column :: "js_env \<Rightarrow> js_value list \<Rightarrow> t_dtype" where
  "infer_value_column env vals = or_string (fst (infer_values env vals None 0))"

fun col_columns ::
  "js_env \<Rightarrow> bool \<Rightarrow> js_object \<Rightarrow> nat \<Rightarrow> nat \<Rightarrow> string list \<Rightarrow>
   t_dtype list \<times> js_value list list \<Rightarrow> error + t_dtype list \<times> js_value list list" where
  "col_columns env preloaded data rc col_num [] st = Inr st"
| "col_columns env preloaded data rc col_num (name # rest) (tys, cols) =
     (case (if preloaded then Inr tys
            else case elements_of (get_prop data name) of
                   Inl e \<Rightarrow> Inl e
                 | Inr vals \<Rightarrow> Inr (tys @ [infer_value_column env vals])) of
        Inl e \<Rightarrow> Inl e
      | Inr tys1 \<Rightarrow>
          (if hasOwnProperty data name then
             (case elements_of (get_prop data name) of
                Inl e \<Rightarrow> Inl e
              | Inr vals \<Rightarrow>
                  col_columns env preloaded data rc (Suc col_num) rest
                    (tys1, cols @ [transform_data env
                       (if col_num < length tys1 then Some (tys1 ! col_num) else None) vals]))
           else
             col_columns env preloaded data rc (Suc col_num) rest
               (tys1, cols @ [replicate rc JUndefined])))"

subsection \<open>Schema input\<close>

text \<open>
  The loop \<^verbatim>\<open>for (let name in data)\<close> over the own properties, and the result of
  \<^verbatim>\<open>parse_data\<close> on a schema: no row, and an empty column for each name.
\<close>

fun schema_columns :: "js_object \<Rightarrow> t_dtype list \<Rightarrow> error + t_dtype list" where
  "schema_columns [] tys = Inr tys"
| "schema_columns ((name, v) # rest) tys =
     (if v = JString ''integer'' then schema_columns rest (tys @ [DTYPE_INT32])
      else if v = JString ''float'' then schema_columns rest (tys @ [DTYPE_FLOAT64])
      else if v = JString ''string'' then schema_columns rest (tys @ [DTYPE_STR])
      else if v = JString ''boolean'' then schema_columns rest (tys @ [DTYPE_BOOL])
      else if v = JString ''date'' then schema_columns rest (tys @ [DTYPE_TIME])
      else Inl (UnknownType v))"

definition schema_pdata :: "js_object \<Rightarrow> t_dtype list \<Rightarrow> error + pdata" where
  "schema_pdata obj tys0 =
     (case schema_columns obj tys0 of
        Inl e \<Rightarrow> Inl e
      | Inr tys1 \<Rightarrow>
          Inr \<lparr>row_count = 0, is_arrow = False, names = map fst obj,
               types = tys1, cdata = map (\<lambda>_. []) obj\<rparr>)"

subsection \<open>\<^verbatim>\<open>parse_data\<close>\<close>

text \<open>
  \<open>tys\<close> is the engine's vector of the table's types when the table exists; its last entry
  (the internal order key) is dropped.  \<open>nms\<close> are the table's column names, if given.
\<close>

definition parse_data ::
  "js_env \<Rightarrow> table_data \<Rightarrow> string list option \<Rightarrow> t_dtype list option \<Rightarrow> error + pdata" where
  "parse_data env data nms tys =
     (let preloaded = (tys \<noteq> None);
          tys0 = (case tys of None \<Rightarrow> [] | Some ts \<Rightarrow> butlast ts)
      in case data of
           RowData rows \<Rightarrow>
             (if rows = [] then Inl EmptyGridNotImplemented
              else
                (let nms1 = (case nms of
                               None \<Rightarrow> discover_names rows 0 50 (map fst (hd rows))
                             | Some ns \<Rightarrow> ns)
                 in case row_columns env preloaded rows 0 nms1 (tys0, [], 0) of
                      (tys1, cols, rc) \<Rightarrow>
                        Inr \<lparr>row_count = rc, is_arrow = False, names = nms1,
                             types = tys1, cdata = cols\<rparr>))
         | ObjData obj \<Rightarrow>
             (case obj of
                [] \<Rightarrow> Inl UnknownDataType
              | (k, v) # _ \<Rightarrow>
                  (case get_prop obj k of
                     JArray first \<Rightarrow>
                       (let nms1 = (case nms of None \<Rightarrow> map fst obj | Some ns \<Rightarrow> ns)
                        in case col_columns env preloaded obj (length first) 0 nms1 (tys0, []) of
                             Inl e \<Rightarrow> Inl e
                           | Inr (tys1, cols) \<Rightarrow>
                               Inr \<lparr>row_count = length first, is_arrow = False, names = nms1,
                                    types = tys1, cdata = cols\<rparr>)
                   | JString s \<Rightarrow> schema_pdata obj tys0
                   | JFunction n \<Rightarrow> schema_pdata obj tys0
                   | _ \<Rightarrow> Inl UnknownDataType)))"

subsection \<open>The sampling rule in the specification's words\<close>





subsection \<open>A concrete runtime for evaluation\<close>

text \<open>
  An instance of the runtime parameters used to evaluate the model on concrete inputs:
  no string or object converts to a number, no string is a date, lower-casing is the
  identity (the inputs used are in lower case) and only a string has a non-empty conversion
  to a string.  The functions found on a member of \<^verbatim>\<open>Object.prototype\<close> are the
  function members of \<^verbatim>\<open>Object.prototype\<close> itself, on a member that is a function
  also \<^verbatim>\<open>apply\<close>, \<^verbatim>\<open>bind\<close>, \<^verbatim>\<open>call\<close> and its prototype, and on \<^verbatim>\<open>Object\<close>
  also its static methods.
\<close>

definition plain_env :: js_env where
  "plain_env = \<lparr>to_number = (\<lambda>v. NaN), is_valid_date = (\<lambda>s. False),
                 date_parse = (\<lambda>v. v), toLowerCase = (\<lambda>s. s), to_string = (\<lambda>v. case v of JString s \<Rightarrow> s | _ \<Rightarrow> []),
                 builtin_method = (\<lambda>name method.
                   (case map_of Object_prototype method of Some (JFunction n) \<Rightarrow> True | _ \<Rightarrow> False)
                   \<or> (name \<noteq> ''__proto__'' \<and> method \<in> set [''apply'', ''bind'', ''call'', ''__proto__''])
                   \<or> (name = ''constructor'' \<and> method \<in> set [''assign'', ''create'',
                         ''defineProperties'', ''defineProperty'', ''entries'', ''freeze'',
                         ''getOwnPropertyDescriptor'', ''getOwnPropertyDescriptors'',
                         ''getOwnPropertyNames'', ''getOwnPropertySymbols'', ''getPrototypeOf'',
                         ''is'', ''isExtensible'', ''isFrozen'', ''isSealed'', ''keys'',
                         ''preventExtensions'', ''seal'', ''setPrototypeOf'', ''values'']))\<rparr>"

subsection \<open>The type of a row-oriented column\<close>





section \<open>The engine and the object store\<close>

text \<open>
  The analytics engine is an opaque collaborator.  Its objects are handles that live until
  \<^verbatim>\<open>delete()\<close> is called on them; the model keeps the handles that are live, what is
  registered with the pools, the calls that carry data to the engine, and the table schema
  the engine reports for each graph node.  What the engine answers and whether one of its
  operations throws is not decided by this module: it is a parameter of each operation of
  the model.  Only the operations called inside a \<^verbatim>\<open>try\<close> block may throw in the model;
  the other engine calls are taken to return.
\<close>

datatype handle = Pool nat | Gnode nat | Tbl nat | Context nat | Schema nat | Vector nat

datatype t_ctx_type = ZERO_SIDED_CONTEXT | ONE_SIDED_CONTEXT | TWO_SIDED_CONTEXT

datatype t_header = HEADER_ROW | HEADER_COLUMN

datatype t_filter_op =
    FILTER_OP_AND | FILTER_OP_OR | FILTER_OP_LT | FILTER_OP_GT | FILTER_OP_EQ
  | FILTER_OP_CONTAINS | FILTER_OP_LTEQ | FILTER_OP_GTEQ | FILTER_OP_NE
  | FILTER_OP_BEGINS_WITH | FILTER_OP_ENDS_WITH | FILTER_OP_IN
  | FILTER_OP_IS_NAN | FILTER_OP_IS_NOT_NAN

datatype t_aggtype =
    AGGTYPE_DISTINCT_COUNT | AGGTYPE_SUM | AGGTYPE_MUL | AGGTYPE_MEAN | AGGTYPE_COUNT
  | AGGTYPE_WEIGHTED_MEAN | AGGTYPE_UNIQUE | AGGTYPE_ANY | AGGTYPE_MEDIAN | AGGTYPE_JOIN
  | AGGTYPE_SCALED_DIV | AGGTYPE_SCALED_ADD | AGGTYPE_DOMINANT | AGGTYPE_FIRST
  | AGGTYPE_LAST | AGGTYPE_AND | AGGTYPE_OR | AGGTYPE_LAST_VALUE
  | AGGTYPE_HIGH_WATER_MARK | AGGTYPE_LOW_WATER_MARK | AGGTYPE_SUM_ABS
  | AGGTYPE_SUM_NOT_NULL | AGGTYPE_MEAN_BY_COUNT | AGGTYPE_IDENTITY
  | AGGTYPE_DISTINCT_LEAF | AGGTYPE_PCT_SUM_PARENT | AGGTYPE_PCT_SUM_GRAND_TOTAL

text \<open>
  The value of \<^verbatim>\<open>limit_index\<close>: \<^verbatim>\<open>undefined\<close> when the constructor was not given one,
  a row offset otherwise, and NaN once a number has been added to \<^verbatim>\<open>undefined\<close>.
\<close>

datatype js_index = Undefined | NotANumber | Index nat

text \<open>\<^verbatim>\<open>limit_index += n\<close> and \<^verbatim>\<open>limit_index % limit\<close> (for a nonzero limit).\<close>

fun plus_index :: "js_index \<Rightarrow> nat \<Rightarrow> js_index" where
  "plus_index (Index i) n = Index (i + n)"
| "plus_index _ n = NotANumber"

fun mod_index :: "js_index \<Rightarrow> nat \<Rightarrow> js_index" where
  "mod_index (Index i) l = Index (i mod l)"
| "mod_index _ l = NotANumber"

text \<open>A limit is set when it is given and truthy; \<^verbatim>\<open>limit || 4294967295\<close> otherwise.\<close>

definition limit_set :: "nat option \<Rightarrow> bool" where
  "limit_set l = (case l of None \<Rightarrow> False | Some n \<Rightarrow> n \<noteq> 0)"

definition limit_or_max :: "nat option \<Rightarrow> nat" where
  "limit_or_max l = (case l of None \<Rightarrow> 4294967295 | Some n \<Rightarrow> if n \<noteq> 0 then n else 4294967295)"

text \<open>\<^verbatim>\<open>if (limit) limit_index = limit_index % limit\<close>.\<close>

definition wrap_index :: "nat option \<Rightarrow> js_index \<Rightarrow> js_index" where
  "wrap_index l i = (case l of None \<Rightarrow> i | Some n \<Rightarrow> if n \<noteq> 0 then mod_index i n else i)"

text \<open>A computed column definition; \<open>c_func\<close> names the JavaScript function.\<close>

record computed_def =
  c_column :: string
  c_func :: nat
  c_inputs :: "string list"
  c_type :: "string option"

text \<open>The calls that hand data or a configuration to the engine, with their arguments.\<close>

datatype engine_call =
    make_table nat "string list" "t_dtype list" "js_value list list" js_index nat string bool bool
  | table_add_computed_column nat string t_dtype nat "string list"
  | fill nat nat nat
  | clone_gnode_table nat
  | make_context_zero nat "t_filter_op option"
      "(string \<times> t_filter_op option \<times> js_value) list" "string list" "(int \<times> int) list"
  | make_context_one nat "string list" "t_filter_op option"
      "(string \<times> t_filter_op option \<times> js_value) list"
      "(string \<times> t_aggtype option \<times> string list) list" "(int \<times> int) list"
  | make_context_two nat "string list" "string list" "t_filter_op option"
      "(string \<times> t_filter_op option \<times> js_value) list"
      "(string \<times> t_aggtype option \<times> string list) list"
  | expand_to_depth nat "t_header option" int
  | sort_context nat "(int \<times> int) list"

text \<open>The engine operations that are called inside a \<^verbatim>\<open>try\<close> block.\<close>

datatype engine_op =
    op_new_pool | op_make_table | op_add_computed_column | op_make_gnode
  | op_register_gnode | op_fill | op_clone_gnode_table

text \<open>
  The behaviour of the engine during one operation of the module: which of its operations
  throws (with which error), the size it reports for the table made, the number of columns
  it reports for the context made, and the schema it reports for the graph node made.
\<close>

record engine_behaviour =
  throws :: "engine_op \<Rightarrow> nat option"
  tbl_size :: nat
  unity_get_column_count :: nat
  get_tblschema :: "(string \<times> t_dtype) list"

text \<open>
  The sort and view configuration as the caller writes it (\<open>filter_cfg\<close> and \<open>sort_cfg\<close>
  are its \<^verbatim>\<open>filter\<close> and \<^verbatim>\<open>sort\<close>).
\<close>

datatype sort_entry = SortName string | SortPair string string

datatype agg_column = ColumnName string | ColumnList "string list"

record aggregate =
  a_op :: string
  a_column :: agg_column
  a_name :: "string option"

record view_config =
  row_pivot :: "string list option"
  column_pivot :: "string list option"
  filter_cfg :: "(string \<times> string \<times> js_value) list option"
  filter_op :: "string option"
  sort_cfg :: "sort_entry list option"
  aggregate :: "aggregate list option"
  column_only :: bool
  row_pivot_depth :: "int option"
  column_pivot_depth :: "int option"

text \<open>
  The Table and View objects.  Objects refer to each other, so they live in a store and
  are named by references; \<open>v_callbacks\<close> is the reference of the table whose
  \<^verbatim>\<open>callbacks\<close> array the view shares.  A random name is a fresh number.
\<close>

record table =
  t_gnode :: nat
  t_pool :: nat
  t_name :: nat
  initialized :: bool
  index :: string
  computed :: "computed_def list"
  callbacks :: "(nat \<times> nat) list"
  t_views :: "nat list"
  limit :: "nat option"
  limit_index :: js_index
  t_delete_callback :: "nat option"

record view =
  ctx :: nat
  nsides :: nat
  v_gnode :: nat
  config :: view_config
  v_pool :: nat
  v_callbacks :: nat
  v_name :: nat
  v_table :: "nat option"
  v_delete_callback :: "nat option"
  client_id :: "nat option"

record world =
  live :: "handle list"
  registered_gnodes :: "(nat \<times> nat) list"
  registered_contexts :: "(nat \<times> nat \<times> nat \<times> t_ctx_type \<times> nat) list"
  update_delegates :: "(nat \<times> nat) list"
  schemas :: "nat \<Rightarrow> (string \<times> t_dtype) list"
  calls :: "engine_call list"
  console_error :: "error list"
  invoked :: "nat list"
  tables :: "nat \<Rightarrow> table option"
  views :: "nat \<Rightarrow> view option"
  next_id :: nat

definition fresh :: "world \<Rightarrow> nat \<times> world" where
  "fresh w = (next_id w, w\<lparr>next_id := Suc (next_id w)\<rparr>)"

definition alloc :: "(nat \<Rightarrow> handle) \<Rightarrow> world \<Rightarrow> nat \<times> world" where
  "alloc kind w = (next_id w, w\<lparr>live := live w @ [kind (next_id w)], next_id := Suc (next_id w)\<rparr>)"

definition release :: "handle \<Rightarrow> world \<Rightarrow> world" where
  "release h w = w\<lparr>live := removeAll h (live w)\<rparr>"

definition call :: "engine_call \<Rightarrow> world \<Rightarrow> world" where
  "call c w = w\<lparr>calls := calls w @ [c]\<rparr>"

definition thrown :: "engine_behaviour \<Rightarrow> engine_op \<Rightarrow> error option" where
  "thrown beh opn = map_option EngineError (throws beh opn)"

text \<open>\<^verbatim>\<open>_columns\<close>: the names of the schema without the order key.\<close>

definition columns_of :: "world \<Rightarrow> nat \<Rightarrow> string list" where
  "columns_of w g = filter (\<lambda>c. c \<noteq> ''psp_okey'') (map fst (schemas w g))"

text \<open>
  \<^verbatim>\<open>_schema\<close>: the readable type of each column but the order key.  The handles it takes
  from the engine are released before it returns.
\<close>

definition schema_of :: "world \<Rightarrow> nat \<Rightarrow> (string \<times> string option) list" where
  "schema_of w g =
     map (\<lambda>(c, ty). (c, get_column_type ty)) (filter (\<lambda>(c, ty). c \<noteq> ''psp_okey'') (schemas w g))"

section \<open>Table\<close>

text \<open>
  The other collaborators: the Arrow loader (\<^verbatim>\<open>load_arrow_buffer\<close> rests on the Arrow
  library), the CSV parser \<^verbatim>\<open>papaparse.parse(...).data\<close> and \<^verbatim>\<open>String.prototype.trim\<close>.
\<close>

record loaders =
  load_arrow_buffer :: "nat \<Rightarrow> error + pdata"
  papaparse :: "string \<Rightarrow> js_object list"
  trim :: "string \<Rightarrow> string"

datatype table_input = Arrow nat | Csv string | Data table_data

record table_options =
  o_index :: "string option"
  o_limit :: "nat option"

definition CHUNKED_THRESHOLD :: nat where
  "CHUNKED_THRESHOLD = 100000"

text \<open>The constructor \<^verbatim>\<open>table(gnode, pool, index, computed, limit, limit_index)\<close>.\<close>

definition new_table ::
  "nat \<Rightarrow> nat \<Rightarrow> string \<Rightarrow> computed_def list option \<Rightarrow> nat option \<Rightarrow> js_index \<Rightarrow>
   world \<Rightarrow> nat \<times> world" where
  "new_table gnode pool idx cdefs lmt lmt_index w =
     (case fresh w of (ref, w1) \<Rightarrow>
      case fresh w1 of (nm, w2) \<Rightarrow>
        (ref, w2\<lparr>tables := (tables w2)(ref \<mapsto>
                    \<lparr>t_gnode = gnode, t_pool = pool, t_name = nm, initialized = False,
                     index = idx, computed = (case cdefs of None \<Rightarrow> [] | Some c \<Rightarrow> c),
                     callbacks = [], t_views = [], limit = lmt, limit_index = lmt_index,
                     t_delete_callback = None\<rparr>),
                  update_delegates := update_delegates w2 @ [(pool, ref)]\<rparr>))"

text \<open>\<^verbatim>\<open>_calculate_computed\<close>: one engine call per definition; a failing engine throws at the first.\<close>

definition computed_dtype :: "string option \<Rightarrow> t_dtype" where
  "computed_dtype ty =
     (if ty = Some ''integer'' then DTYPE_INT32
      else if ty = Some ''float'' then DTYPE_FLOAT64
      else if ty = Some ''boolean'' then DTYPE_BOOL
      else if ty = Some ''date'' then DTYPE_TIME
      else DTYPE_STR)"

definition calculate_computed ::
  "engine_behaviour \<Rightarrow> nat \<Rightarrow> computed_def list \<Rightarrow> world \<Rightarrow> error option \<times> world" where
  "calculate_computed beh tbl computed_defs w =
     (if computed_defs = [] then (None, w)
      else case thrown beh op_add_computed_column of
             Some e \<Rightarrow> (Some e, w)
           | None \<Rightarrow>
               (None, foldl (\<lambda>w' coldef. call (table_add_computed_column tbl (c_column coldef)
                                (computed_dtype (c_type coldef)) (c_func coldef) (c_inputs coldef)) w')
                        w computed_defs))"

text \<open>
  The \<^verbatim>\<open>catch\<close> and \<^verbatim>\<open>finally\<close> of the factory and of \<^verbatim>\<open>add_computed\<close>: the pool and
  the graph node are deleted if they exist, then the scratch table, and the error is thrown
  again.
\<close>

definition release_opt :: "(nat \<Rightarrow> handle) \<Rightarrow> nat option \<Rightarrow> world \<Rightarrow> world" where
  "release_opt kind h w = (case h of None \<Rightarrow> w | Some i \<Rightarrow> release (kind i) w)"

definition rethrow ::
  "error \<Rightarrow> nat option \<Rightarrow> nat option \<Rightarrow> nat option \<Rightarrow> world \<Rightarrow> (error + nat) \<times> world" where
  "rethrow e pool gnode tbl w =
     (Inl e, release_opt Tbl tbl (release_opt Gnode gnode (release_opt Pool pool w)))"

text \<open>
  The loop that loads the remaining pages of a chunked input.  It returns the error
  thrown, if any, with the current scratch table, \<^verbatim>\<open>limit_index\<close> and store.
\<close>

function chunk_loop ::
  "engine_behaviour \<Rightarrow> pdata \<Rightarrow> nat option \<Rightarrow> string \<Rightarrow> nat \<Rightarrow> nat \<Rightarrow>
   js_value list list \<Rightarrow> nat \<Rightarrow> js_index \<Rightarrow> world \<Rightarrow> error option \<times> nat \<times> js_index \<times> world" where
  "chunk_loop beh p lmt idx pool gnode cd tbl li w =
     (if cd \<noteq> [] \<and> length (hd cd) > 0 then
        (let w1 = release (Tbl tbl) w;
             pages = map (take CHUNKED_THRESHOLD) cd;
             cd' = map (drop CHUNKED_THRESHOLD) cd
         in case thrown beh op_make_table of
              Some e \<Rightarrow> (Some e, tbl, li, w1)
            | None \<Rightarrow>
                (case alloc Tbl (call (make_table (length (hd pages)) (names p) (types p) pages li
                                        (limit_or_max lmt) idx (is_arrow p) False) w1) of
                   (tbl', w2) \<Rightarrow>
                     (let li' = wrap_index lmt (plus_index li (length (hd pages)))
                      in case thrown beh op_fill of
                           Some e \<Rightarrow> (Some e, tbl', li', w2)
                         | None \<Rightarrow>
                             chunk_loop beh p lmt idx pool gnode cd' tbl' li'
                               (call (fill pool gnode tbl') w2))))
      else (None, tbl, li, w))"
  by pat_completeness auto
termination
  by (relation "measure (\<lambda>(beh, p, lmt, idx, pool, gnode, cd, tbl, li, w). length (hd cd))")
     (auto simp: CHUNKED_THRESHOLD_def hd_map)

declare chunk_loop.simps [simp del]

text \<open>The \<^verbatim>\<open>try\<close> block of the factory \<^verbatim>\<open>perspective.table\<close>.\<close>

definition table_try ::
  "engine_behaviour \<Rightarrow> pdata \<Rightarrow> bool \<Rightarrow> string \<Rightarrow> nat option \<Rightarrow> world \<Rightarrow> (error + nat) \<times> world" where
  "table_try beh p chunked idx lmt w =
     (case thrown beh op_new_pool of
        Some e \<Rightarrow> rethrow e None None None w
      | None \<Rightarrow>
     (case alloc Pool w of (pool, w1) \<Rightarrow>
     (let pages = (if chunked then map (take CHUNKED_THRESHOLD) (cdata p) else cdata p);
          cd = (if chunked then map (drop CHUNKED_THRESHOLD) (cdata p) else cdata p)
      in if pages = [] then rethrow TypeError (Some pool) None None w1
         else
     (case thrown beh op_make_table of
        Some e \<Rightarrow> rethrow e (Some pool) None None w1
      | None \<Rightarrow>
     (case alloc Tbl (call (make_table (length (hd pages)) (names p) (types p) pages (Index 0)
                             (limit_or_max lmt) idx (is_arrow p) False) w1) of
        (tbl, w2) \<Rightarrow>
     (let li = wrap_index lmt (Index (tbl_size beh))
      in case thrown beh op_make_gnode of
           Some e \<Rightarrow> rethrow e (Some pool) None (Some tbl) w2
         | None \<Rightarrow>
     (case alloc Gnode w2 of (gnode, w3) \<Rightarrow>
     (let w4 = w3\<lparr>schemas := (schemas w3)(gnode := get_tblschema beh)\<rparr>
      in case thrown beh op_register_gnode of
           Some e \<Rightarrow> rethrow e (Some pool) (Some gnode) (Some tbl) w4
         | None \<Rightarrow>
     (let w5 = w4\<lparr>registered_gnodes := registered_gnodes w4 @ [(pool, gnode)]\<rparr>
      in case thrown beh op_fill of
           Some e \<Rightarrow> rethrow e (Some pool) (Some gnode) (Some tbl) w5
         | None \<Rightarrow>
     (case (if chunked then chunk_loop beh p lmt idx pool gnode cd tbl li (call (fill pool gnode tbl) w5)
            else (None, tbl, li, call (fill pool gnode tbl) w5)) of
        (Some e, tbl', li', w6) \<Rightarrow> rethrow e (Some pool) (Some gnode) (Some tbl') w6
      | (None, tbl', li', w6) \<Rightarrow>
          (case new_table gnode pool idx None lmt li' w6 of
             (ref, w7) \<Rightarrow> (Inr ref, release (Tbl tbl') w7))))))))))))"

text \<open>
  The factory \<^verbatim>\<open>perspective.table(data, options)\<close>.  The data are normalised first;
  the result is the reference of the new Table, or the error thrown.
\<close>

definition table_pdata :: "js_env \<Rightarrow> loaders \<Rightarrow> table_input \<Rightarrow> error + pdata" where
  "table_pdata env ld data =
     (case data of
        Arrow b \<Rightarrow> load_arrow_buffer ld b
      | Csv s \<Rightarrow>
          parse_data env
            (RowData (papaparse ld (trim ld
               (if s \<noteq> [] \<and> hd s = CHR '','' then CHR ''_'' # s else s))))
            None None
      | Data d \<Rightarrow> parse_data env d None None)"

definition perspective_table ::
  "js_env \<Rightarrow> loaders \<Rightarrow> engine_behaviour \<Rightarrow> table_input \<Rightarrow> table_options \<Rightarrow> world \<Rightarrow>
   (error + nat) \<times> world" where
  "perspective_table env ld beh data options w =
     (let idx = (case o_index options of None \<Rightarrow> [] | Some s \<Rightarrow> s)
      in case table_pdata env ld data of
           Inl e \<Rightarrow> (Inl e, w)
         | Inr p \<Rightarrow>
             (let chunked = (case data of Arrow b \<Rightarrow> False | _ \<Rightarrow> row_count p > CHUNKED_THRESHOLD)
              in if idx \<noteq> [] \<and> limit_set (o_limit options) then (Inl ConflictingOptions, w)
                 else if idx \<noteq> [] \<and> idx \<notin> set (names p) then (Inl IndexNotInData, w)
                 else table_try beh p chunked idx (o_limit options) w))"

text \<open>
  \<^verbatim>\<open>table.prototype.update\<close>.  The schema handle and its type vector are taken before the
  data are parsed; an error of the parsing leaves the function at once.  The \<^verbatim>\<open>try\<close>
  block gives the error caught, if any, and the scratch table, if it was made.
\<close>

definition update_try ::
  "engine_behaviour \<Rightarrow> nat \<Rightarrow> table \<Rightarrow> pdata \<Rightarrow> world \<Rightarrow> error option \<times> nat option \<times> world" where
  "update_try beh tid t p w =
     (case thrown beh op_make_table of
        Some e \<Rightarrow> (Some e, None, w)
      | None \<Rightarrow>
     (case alloc Tbl (call (make_table (row_count p) (names p) (types p) (cdata p) (limit_index t)
                             (limit_or_max (limit t)) (index t) (is_arrow p) False) w) of
        (tbl, w1) \<Rightarrow>
     (let t1 = t\<lparr>limit_index := wrap_index (limit t) (plus_index (limit_index t) (row_count p))\<rparr>;
          w2 = w1\<lparr>tables := (tables w1)(tid \<mapsto> t1)\<rparr>
      in case calculate_computed beh tbl (computed t1) w2 of
           (Some e, w3) \<Rightarrow> (Some e, Some tbl, w3)
         | (None, w3) \<Rightarrow>
             (case thrown beh op_fill of
                Some e \<Rightarrow> (Some e, Some tbl, w3)
              | None \<Rightarrow>
                  (None, Some tbl,
                   (call (fill (t_pool t1) (t_gnode t1) tbl) w3)
                     \<lparr>tables := (tables w3)(tid \<mapsto> t1\<lparr>initialized := True\<rparr>)\<rparr>)))))"

text \<open>
  The data of an update, normalised against the columns and types of the table.  A string
  is not parsed as CSV here: \<^verbatim>\<open>parse_data\<close> reads its first character as a type name.
\<close>

definition update_pdata :: "js_env \<Rightarrow> loaders \<Rightarrow> world \<Rightarrow> table \<Rightarrow> table_input \<Rightarrow> error + pdata" where
  "update_pdata env ld w t data =
     (case data of
        Arrow b \<Rightarrow> load_arrow_buffer ld b
      | Csv s \<Rightarrow> (if s = [] then Inl UnknownDataType else Inl (UnknownType (JString [hd s])))
      | Data d \<Rightarrow> parse_data env d (Some (columns_of w (t_gnode t)))
                    (Some (map snd (schemas w (t_gnode t)))))"

definition update ::
  "js_env \<Rightarrow> loaders \<Rightarrow> engine_behaviour \<Rightarrow> nat \<Rightarrow> table_input \<Rightarrow> world \<Rightarrow> (error + unit) \<times> world" where
  "update env ld beh tid data w =
     (case tables w tid of
        None \<Rightarrow> (Inl TypeError, w)
      | Some t \<Rightarrow>
          (case alloc Schema w of (schema, w1) \<Rightarrow>
           case alloc Vector w1 of (tys, w2) \<Rightarrow>
             (case update_pdata env ld w t data of
                Inl e \<Rightarrow> (Inl e, w2)
              | Inr p \<Rightarrow>
                  (case update_try beh tid t p w2 of
                     (caught, tbl, w3) \<Rightarrow>
                       (let w4 = (case caught of
                                    None \<Rightarrow> w3
                                  | Some e \<Rightarrow> w3\<lparr>console_error := console_error w3 @ [e]\<rparr>)
                        in (Inr (),
                            release (Vector tys) (release (Schema schema)
                              (release_opt Tbl tbl w4))))))))"

text \<open>\<^verbatim>\<open>table.prototype.add_computed\<close>: a new Table over a clone of the current one.\<close>

definition add_computed ::
  "engine_behaviour \<Rightarrow> nat \<Rightarrow> computed_def list \<Rightarrow> world \<Rightarrow> (error + nat) \<times> world" where
  "add_computed beh tid new_defs w =
     (case tables w tid of
        None \<Rightarrow> (Inl TypeError, w)
      | Some t \<Rightarrow>
     (case thrown beh op_new_pool of
        Some e \<Rightarrow> rethrow e None None None w
      | None \<Rightarrow>
     (case alloc Pool w of (pool, w1) \<Rightarrow>
     (case thrown beh op_clone_gnode_table of
        Some e \<Rightarrow> rethrow e (Some pool) None None w1
      | None \<Rightarrow>
     (case alloc Tbl (call (clone_gnode_table (t_gnode t)) w1) of (tbl, w2) \<Rightarrow>
     (case calculate_computed beh tbl new_defs w2 of
        (Some e, w3) \<Rightarrow> rethrow e (Some pool) None (Some tbl) w3
      | (None, w3) \<Rightarrow>
     (case thrown beh op_make_gnode of
        Some e \<Rightarrow> rethrow e (Some pool) None (Some tbl) w3
      | None \<Rightarrow>
     (case alloc Gnode w3 of (gnode, w4) \<Rightarrow>
     (let w5 = w4\<lparr>schemas := (schemas w4)(gnode := get_tblschema beh)\<rparr>
      in case thrown beh op_register_gnode of
           Some e \<Rightarrow> rethrow e (Some pool) (Some gnode) (Some tbl) w5
         | None \<Rightarrow>
     (let w6 = w5\<lparr>registered_gnodes := registered_gnodes w5 @ [(pool, gnode)]\<rparr>
      in case thrown beh op_fill of
           Some e \<Rightarrow> rethrow e (Some pool) (Some gnode) (Some tbl) w6
         | None \<Rightarrow>
     (let merged = (if length (computed t) > 0 then computed t @ new_defs else new_defs)
      in case new_table gnode pool (index t) (Some merged) None Undefined
                (call (fill pool gnode tbl) w6) of
           (ref, w7) \<Rightarrow> (Inr ref, release (Tbl tbl) w7))))))))))))"

text \<open>\<^verbatim>\<open>table.prototype.on_delete\<close> and \<^verbatim>\<open>table.prototype.delete\<close>.\<close>

definition table_on_delete :: "nat \<Rightarrow> nat \<Rightarrow> world \<Rightarrow> (error + unit) \<times> world" where
  "table_on_delete tid callback w =
     (case tables w tid of
        None \<Rightarrow> (Inl TypeError, w)
      | Some t \<Rightarrow> (Inr (), w\<lparr>tables := (tables w)(tid \<mapsto> t\<lparr>t_delete_callback := Some callback\<rparr>)\<rparr>))"

definition table_delete :: "nat \<Rightarrow> world \<Rightarrow> (error + unit) \<times> world" where
  "table_delete tid w =
     (case tables w tid of
        None \<Rightarrow> (Inl TypeError, w)
      | Some t \<Rightarrow>
          (if length (t_views t) > 0 then (Inl TableHasContexts, w)
           else
             (let w1 = w\<lparr>registered_gnodes :=
                          filter (\<lambda>(pl, g). \<not> (pl = t_pool t \<and> g = t_gnode t)) (registered_gnodes w)\<rparr>;
                  w2 = release (Pool (t_pool t)) (release (Gnode (t_gnode t)) w1)
              in (Inr (), (case t_delete_callback t of
                             None \<Rightarrow> w2
                           | Some cb \<Rightarrow> w2\<lparr>invoked := invoked w2 @ [cb]\<rparr>)))))"

section \<open>View\<close>

text \<open>
  The constants of \<^verbatim>\<open>defaults.js\<close> that \<^verbatim>\<open>table.prototype.view\<close> reads.
\<close>

record defaults =
  SORT_ORDERS :: "string list"
  COLUMN_SEPARATOR_STRING :: string

text \<open>\<^verbatim>\<open>Array.prototype.indexOf\<close>: the first position of a value, or \<open>- 1\<close>.\<close>

fun indexOf :: "'a list \<Rightarrow> 'a \<Rightarrow> int" where
  "indexOf [] x = - 1"
| "indexOf (y # ys) x = (if y = x then 0 else (let i = indexOf ys x in if i < 0 then - 1 else i + 1))"

definition string_to_filter_op :: "string \<Rightarrow> t_filter_op option" where
  "string_to_filter_op s = map_of
     [(''&'', FILTER_OP_AND), (''|'', FILTER_OP_OR), (''<'', FILTER_OP_LT), (''>'', FILTER_OP_GT),
      (''=='', FILTER_OP_EQ), (''contains'', FILTER_OP_CONTAINS), (''<='', FILTER_OP_LTEQ),
      (''>='', FILTER_OP_GTEQ), (''!='', FILTER_OP_NE), (''begins with'', FILTER_OP_BEGINS_WITH),
      (''ends with'', FILTER_OP_ENDS_WITH), (''or'', FILTER_OP_OR), (''in'', FILTER_OP_IN),
      (''and'', FILTER_OP_AND), (''is nan'', FILTER_OP_IS_NAN),
      (''is not nan'', FILTER_OP_IS_NOT_NAN)] s"

definition string_to_aggtype :: "string \<Rightarrow> t_aggtype option" where
  "string_to_aggtype s = map_of
     [(''distinct count'', AGGTYPE_DISTINCT_COUNT), (''distinctcount'', AGGTYPE_DISTINCT_COUNT),
      (''distinct'', AGGTYPE_DISTINCT_COUNT), (''sum'', AGGTYPE_SUM), (''mul'', AGGTYPE_MUL),
      (''avg'', AGGTYPE_MEAN), (''mean'', AGGTYPE_MEAN), (''count'', AGGTYPE_COUNT),
      (''weighted mean'', AGGTYPE_WEIGHTED_MEAN), (''unique'', AGGTYPE_UNIQUE),
      (''any'', AGGTYPE_ANY), (''median'', AGGTYPE_MEDIAN), (''join'', AGGTYPE_JOIN),
      (''div'', AGGTYPE_SCALED_DIV), (''add'', AGGTYPE_SCALED_ADD),
      (''dominant'', AGGTYPE_DOMINANT), (''first by index'', AGGTYPE_FIRST),
      (''last by index'', AGGTYPE_LAST), (''and'', AGGTYPE_AND), (''or'', AGGTYPE_OR),
      (''last'', AGGTYPE_LAST_VALUE), (''high'', AGGTYPE_HIGH_WATER_MARK),
      (''low'', AGGTYPE_LOW_WATER_MARK), (''sum abs'', AGGTYPE_SUM_ABS),
      (''sum not null'', AGGTYPE_SUM_NOT_NULL), (''mean by count'', AGGTYPE_MEAN_BY_COUNT),
      (''identity'', AGGTYPE_IDENTITY), (''distinct leaf'', AGGTYPE_DISTINCT_LEAF),
      (''pct sum parent'', AGGTYPE_PCT_SUM_PARENT),
      (''pct sum grand total'', AGGTYPE_PCT_SUM_GRAND_TOTAL)] s"

subsection \<open>Pivots\<close>

text \<open>
  A pivot list read with its default, \<^verbatim>\<open>config.row_pivot || []\<close>, and the
  configuration after the defaults and the column-only mode were applied.
\<close>

definition pivots :: "string list option \<Rightarrow> string list" where
  "pivots p = (case p of None \<Rightarrow> [] | Some ps \<Rightarrow> ps)"

definition default_pivots :: "view_config \<Rightarrow> view_config" where
  "default_pivots cfg =
     (let rp = pivots (row_pivot cfg); cp = pivots (column_pivot cfg)
      in if length rp = 0 \<and> length cp > 0
         then cfg\<lparr>row_pivot := Some [''psp_okey''], column_pivot := Some cp, column_only := True\<rparr>
         else cfg\<lparr>row_pivot := Some rp, column_pivot := Some cp\<rparr>)"

subsection \<open>Filters\<close>

definition translate_filters ::
  "js_env \<Rightarrow> (string \<times> string option) list \<Rightarrow> (string \<times> string \<times> js_value) list \<Rightarrow>
   (string \<times> t_filter_op option \<times> js_value) list" where
  "translate_filters env schema fs =
     map (\<lambda>(c, opn, v).
            if map_of schema c = Some (Some ''date'')
            then (c, string_to_filter_op opn, JNumber (Number_js env (date_parse env v)))
            else (c, string_to_filter_op opn, v)) fs"

subsection \<open>Sort\<close>

text \<open>
  The translation of one sort entry needs \<^verbatim>\<open>config.aggregate\<close>: without it the
  callback throws.  A column matches an aggregate whose \<^verbatim>\<open>column\<close> is that very string.
\<close>

definition translate_sort ::
  "defaults \<Rightarrow> aggregate list option \<Rightarrow> sort_entry list \<Rightarrow> error + (int \<times> int) list" where
  "translate_sort dflt aggs entries =
     (if entries = [] then Inr []
      else case aggs of
             None \<Rightarrow> Inl TypeError
           | Some ags \<Rightarrow>
               Inr (map (\<lambda>x. case x of
                              SortName c \<Rightarrow> (indexOf (map a_column ags) (ColumnName c), 1)
                            | SortPair c ord \<Rightarrow>
                                (indexOf (map a_column ags) (ColumnName c),
                                 indexOf (SORT_ORDERS dflt) ord)) entries))"

text \<open>
  \<^verbatim>\<open>x[0]\<close> of a sort entry: the column of a pair, the first character of a bare name.
\<close>

fun sort_entry_head :: "sort_entry \<Rightarrow> string option" where
  "sort_entry_head (SortPair c ord) = Some c"
| "sort_entry_head (SortName []) = None"
| "sort_entry_head (SortName (ch # s)) = Some [ch]"

definition filter_config_sort :: "view_config \<Rightarrow> view_config" where
  "filter_config_sort cfg =
     (case sort_cfg cfg of
        None \<Rightarrow> cfg
      | Some entries \<Rightarrow>
          if length (pivots (column_pivot cfg)) > 0 \<and> length (pivots (row_pivot cfg)) > 0
          then cfg\<lparr>sort_cfg := Some (filter (\<lambda>x. case sort_entry_head x of
                                                     None \<Rightarrow> True
                                                   | Some c \<Rightarrow> c \<notin> set (pivots (row_pivot cfg)))
                                           entries)\<rparr>
          else cfg)"

subsection \<open>Aggregates\<close>

fun join :: "string \<Rightarrow> string list \<Rightarrow> string" where
  "join sep [] = []"
| "join sep [s] = s"
| "join sep (s # rest) = s @ sep @ join sep rest"

text \<open>
  One turn of the loop over \<^verbatim>\<open>config.aggregate\<close>: the entry handed to the engine and
  the aggregate as the loop leaves it in the configuration, or the arity error.
\<close>

definition translate_aggregate ::
  "defaults \<Rightarrow> bool \<Rightarrow> aggregate \<Rightarrow> error + (string \<times> t_aggtype option \<times> string list) \<times> aggregate" where
  "translate_aggregate dflt col_only agg =
     (let agg_op = (if col_only then Some AGGTYPE_ANY else string_to_aggtype (a_op agg));
          agg1 = (if col_only then agg\<lparr>a_op := ''any''\<rparr> else agg)
      in case a_column agg1 of
           ColumnName c \<Rightarrow>
             Inr (((case a_name agg1 of
                      Some n \<Rightarrow> if n \<noteq> [] then n else join (COLUMN_SEPARATOR_STRING dflt) [c]
                    | None \<Rightarrow> join (COLUMN_SEPARATOR_STRING dflt) [c]),
                   agg_op, [c]),
                  agg1\<lparr>a_column := ColumnList [c]\<rparr>)
         | ColumnList cs \<Rightarrow>
             if (a_op agg1 = ''weighted mean'' \<and> length cs \<noteq> 2)
                \<or> (a_op agg1 \<noteq> ''weighted mean'' \<and> length cs \<noteq> 1)
             then Inl IncorrectArity
             else
               Inr (((case a_name agg1 of
                        Some n \<Rightarrow> if n \<noteq> [] then n else join (COLUMN_SEPARATOR_STRING dflt) cs
                      | None \<Rightarrow> join (COLUMN_SEPARATOR_STRING dflt) cs),
                     agg_op, cs),
                    agg1))"

fun translate_aggregates ::
  "defaults \<Rightarrow> bool \<Rightarrow> aggregate list \<Rightarrow>
   error + (string \<times> t_aggtype option \<times> string list) list \<times> aggregate list" where
  "translate_aggregates dflt col_only [] = Inr ([], [])"
| "translate_aggregates dflt col_only (agg # rest) =
     (case translate_aggregate dflt col_only agg of
        Inl e \<Rightarrow> Inl e
      | Inr (a, agg') \<Rightarrow>
          (case translate_aggregates dflt col_only rest of
             Inl e \<Rightarrow> Inl e
           | Inr (as, aggs') \<Rightarrow> Inr (a # as, agg' # aggs')))"

definition default_aggregates ::
  "bool \<Rightarrow> string list \<Rightarrow> (string \<times> t_aggtype option \<times> string list) list" where
  "default_aggregates col_only cols =
     map (\<lambda>c. (c, Some (if col_only then AGGTYPE_ANY else AGGTYPE_DISTINCT_COUNT), [c]))
       (filter (\<lambda>c. c \<noteq> ''psp_okey'') cols)"

subsection \<open>The sort of a two-sided context\<close>

text \<open>
  The loop \<^verbatim>\<open>for (let z = 0; z < groups; z++)\<close> with
  \<^verbatim>\<open>groups = unity_get_column_count() / aggregates.length\<close>.  The quotient is a
  floating-point number: \<open>z < u / a\<close> holds exactly when \<open>z * a < u\<close>, also when \<open>a\<close> is 0,
  where the quotient is Infinity for a positive \<open>u\<close> (the loop never ends) and NaN for
  \<open>u = 0\<close> (the loop does not start).
\<close>

partial_function (option) sort_groups ::
  "nat \<Rightarrow> nat \<Rightarrow> nat \<Rightarrow> (int \<times> int) list \<Rightarrow> (int \<times> int) list \<Rightarrow> (int \<times> int) list option" where
  "sort_groups z u a srt new_sort =
     (if z * a < u
      then sort_groups (Suc z) u a srt (new_sort @ map (\<lambda>(i, ord). (i + int (z * a), ord)) srt)
      else Some new_sort)"

declare sort_groups.simps [code]

subsection \<open>\<^verbatim>\<open>table.prototype.view\<close>\<close>

text \<open>The contexts: what is made, registered, expanded and sorted, by the number of sides.\<close>

definition register_context :: "nat \<Rightarrow> nat \<Rightarrow> nat \<Rightarrow> t_ctx_type \<Rightarrow> nat \<Rightarrow> world \<Rightarrow> world" where
  "register_context pool gnode nm ty c w =
     w\<lparr>registered_contexts := registered_contexts w @ [(pool, gnode, nm, ty, c)]\<rparr>"

definition depth_or :: "int option \<Rightarrow> string list \<Rightarrow> int" where
  "depth_or d pvs = (case d of Some k \<Rightarrow> k - 1 | None \<Rightarrow> int (length pvs))"

definition make_context ::
  "engine_behaviour \<Rightarrow> table \<Rightarrow> view_config \<Rightarrow> nat \<Rightarrow> t_filter_op option \<Rightarrow>
   (string \<times> t_filter_op option \<times> js_value) list \<Rightarrow>
   (string \<times> t_aggtype option \<times> string list) list \<Rightarrow> (int \<times> int) list \<Rightarrow> world \<Rightarrow>
   (nat \<times> nat \<times> world) option" where
  "make_context beh t cfg nm fop filters aggregates srt w =
     (let rp = pivots (row_pivot cfg); cp = pivots (column_pivot cfg)
      in if length rp > 0 \<or> length cp > 0 then
           (if length cp > 0 then
              (case alloc Context (call (make_context_two (t_gnode t) rp cp fop filters aggregates) w) of
                 (c, w1) \<Rightarrow>
                   (let w2 = register_context (t_pool t) (t_gnode t) nm TWO_SIDED_CONTEXT c w1;
                        w3 = call (expand_to_depth c (Some HEADER_ROW) (depth_or (row_pivot_depth cfg) rp)) w2;
                        w4 = call (expand_to_depth c (Some HEADER_COLUMN)
                                     (depth_or (column_pivot_depth cfg) cp)) w3
                    in case sort_groups 0 (unity_get_column_count beh) (length aggregates) srt [] of
                         None \<Rightarrow> None
                       | Some new_sort \<Rightarrow>
                           Some (c, 2, if length srt > 0 then call (sort_context c new_sort) w4 else w4)))
            else
              (case alloc Context (call (make_context_one (t_gnode t) rp fop filters aggregates srt) w) of
                 (c, w1) \<Rightarrow>
                   (let w2 = register_context (t_pool t) (t_gnode t) nm ONE_SIDED_CONTEXT c w1
                    in Some (c, 1, call (expand_to_depth c None (depth_or (row_pivot_depth cfg) rp)) w2))))
         else
           (case alloc Context (call (make_context_zero (t_gnode t) fop filters (map fst aggregates) srt) w) of
              (c, w1) \<Rightarrow>
                Some (c, 0, register_context (t_pool t) (t_gnode t) nm ZERO_SIDED_CONTEXT c w1)))"

text \<open>
  \<^verbatim>\<open>table.prototype.view\<close>: the reference of the new View, or the error thrown; \<open>None\<close>
  when the function does not return.
\<close>

definition table_view ::
  "js_env \<Rightarrow> defaults \<Rightarrow> engine_behaviour \<Rightarrow> nat \<Rightarrow> view_config \<Rightarrow> world \<Rightarrow>
   ((error + nat) \<times> world) option" where
  "table_view env dflt beh tid cfg0 w0 =
     (case tables w0 tid of
        None \<Rightarrow> Some (Inl TypeError, w0)
      | Some t \<Rightarrow>
     (case fresh w0 of (nm, w) \<Rightarrow>
     (let cfg = default_pivots cfg0;
          filters = (case filter_cfg cfg of
                       None \<Rightarrow> []
                     | Some fs \<Rightarrow> translate_filters env (schema_of w (t_gnode t)) fs);
          fop = (case filter_cfg cfg of
                   None \<Rightarrow> Some FILTER_OP_AND
                 | Some fs \<Rightarrow> (case filter_op cfg of
                                None \<Rightarrow> Some FILTER_OP_AND
                              | Some s \<Rightarrow> if s \<noteq> [] then string_to_filter_op s
                                          else Some FILTER_OP_AND))
      in case (case sort_cfg cfg of None \<Rightarrow> Inr [] | Some entries \<Rightarrow>
                 translate_sort dflt (aggregate cfg) entries) of
           Inl e \<Rightarrow> Some (Inl e, w)
         | Inr srt \<Rightarrow>
     (let cfg1 = filter_config_sort cfg
      in case (case aggregate cfg1 of
                 None \<Rightarrow> Inr (default_aggregates (column_only cfg1) (map fst (schemas w (t_gnode t))),
                              None)
               | Some aggs \<Rightarrow>
                   (case translate_aggregates dflt (column_only cfg1) aggs of
                      Inl e \<Rightarrow> Inl e
                    | Inr (as, aggs') \<Rightarrow> Inr (as, Some aggs'))) of
           Inl e \<Rightarrow> Some (Inl e, w)
         | Inr (aggregates, aggs') \<Rightarrow>
     (let cfg2 = cfg1\<lparr>aggregate := aggs'\<rparr>
      in case make_context beh t cfg2 nm fop filters aggregates srt w of
           None \<Rightarrow> None
         | Some (c, sides, w1) \<Rightarrow>
     (case fresh w1 of (ref, w2) \<Rightarrow>
        Some (Inr ref,
              w2\<lparr>views := (views w2)(ref \<mapsto>
                     \<lparr>ctx = c, nsides = sides, v_gnode = t_gnode t, config = cfg2,
                      v_pool = t_pool t, v_callbacks = tid, v_name = nm, v_table = Some tid,
                      v_delete_callback = None, client_id = None\<rparr>),
                  tables := (tables w2)(tid \<mapsto> t\<lparr>t_views := t_views t @ [ref]\<rparr>)\<rparr>)))))))"

text \<open>\<^verbatim>\<open>view.prototype.sides\<close>.\<close>

definition sides :: "world \<Rightarrow> nat \<Rightarrow> nat option" where
  "sides w vid = map_option nsides (views w vid)"

text \<open>\<^verbatim>\<open>view.prototype.on_update\<close> and \<^verbatim>\<open>view.prototype.on_delete\<close>.\<close>

definition view_on_update :: "nat \<Rightarrow> nat \<Rightarrow> world \<Rightarrow> (error + unit) \<times> world" where
  "view_on_update vid callback w =
     (case views w vid of
        None \<Rightarrow> (Inl TypeError, w)
      | Some v \<Rightarrow>
          (case tables w (v_callbacks v) of
             None \<Rightarrow> (Inl TypeError, w)
           | Some t \<Rightarrow>
               (Inr (), w\<lparr>tables := (tables w)(v_callbacks v \<mapsto>
                                      t\<lparr>callbacks := callbacks t @ [(vid, callback)]\<rparr>)\<rparr>)))"

definition view_on_delete :: "nat \<Rightarrow> nat \<Rightarrow> world \<Rightarrow> (error + unit) \<times> world" where
  "view_on_delete vid callback w =
     (case views w vid of
        None \<Rightarrow> (Inl TypeError, w)
      | Some v \<Rightarrow> (Inr (), w\<lparr>views := (views w)(vid \<mapsto> v\<lparr>v_delete_callback := Some callback\<rparr>)\<rparr>))"

text \<open>
  \<^verbatim>\<open>view.prototype.delete\<close>.  \<^verbatim>\<open>splice(indexOf(this), 1)\<close> removes the view from the
  table's list, or the last element when the view is not in it.  A view that was deleted
  before has no table any more, and the call fails after the context was released.  The
  callbacks of the view are then removed from the array it shares with its table.
\<close>

definition splice_view :: "nat list \<Rightarrow> nat \<Rightarrow> nat list" where
  "splice_view vs v =
     (let i = indexOf vs v in if i < 0 then butlast vs else take (nat i) vs @ drop (Suc (nat i)) vs)"

definition prune_callbacks :: "nat \<Rightarrow> nat \<Rightarrow> world \<Rightarrow> world" where
  "prune_callbacks owner vid w =
     (case tables w owner of
        None \<Rightarrow> w
      | Some t \<Rightarrow>
          w\<lparr>tables := (tables w)(owner \<mapsto>
                 t\<lparr>callbacks := filter (\<lambda>(vw, cb). vw \<noteq> vid) (callbacks t)\<rparr>)\<rparr>)"

definition view_delete :: "nat \<Rightarrow> world \<Rightarrow> (error + unit) \<times> world" where
  "view_delete vid w =
     (case views w vid of
        None \<Rightarrow> (Inl TypeError, w)
      | Some v \<Rightarrow>
          (let w1 = w\<lparr>registered_contexts :=
                       filter (\<lambda>(pl, g, nm, ty, c). \<not> (pl = v_pool v \<and> g = v_gnode v \<and> nm = v_name v))
                         (registered_contexts w)\<rparr>;
               w2 = release (Context (ctx v)) w1
           in case v_table v of
                None \<Rightarrow> (Inl TypeError, w2)
              | Some tid \<Rightarrow>
                  (case tables w2 tid of
                     None \<Rightarrow> (Inl TypeError, w2)
                   | Some t \<Rightarrow>
                       (let w3 = w2\<lparr>tables := (tables w2)(tid \<mapsto>
                                       t\<lparr>t_views := splice_view (t_views t) vid\<rparr>),
                                    views := (views w2)(vid \<mapsto> v\<lparr>v_table := None\<rparr>)\<rparr>;
                            w4 = prune_callbacks (v_callbacks v) vid w3
                        in (Inr (), (case v_delete_callback v of
                                       None \<Rightarrow> w4
                                     | Some cb \<Rightarrow> w4\<lparr>invoked := invoked w4 @ [cb]\<rparr>))))))"

section \<open>Host\<close>

text \<open>
  The messages of the protocol.  \<^verbatim>\<open>post\<close> is the transport of the concrete host; the
  model appends the reply to the list of replies posted.
\<close>

record message =
  cmd :: string
  m_id :: nat
  m_name :: string
  m_method :: string
  m_args :: "js_value list"
  m_subscribe :: bool

text \<open>
  A reply is \<^verbatim>\<open>{id, data}\<close>, \<^verbatim>\<open>{id, error}\<close> with a literal error object, or
  \<^verbatim>\<open>{id, error: error_to_json(e)}\<close> for an error caught, kept by the error.
\<close>

datatype reply = DataReply nat js_value | ErrorReply nat js_object | CaughtReply nat error

text \<open>
  The registries are object literals (\<^verbatim>\<open>this._views = {}\<close>): \<open>h_views\<close> holds the own
  properties, the Views registered under their names, and a read under any other name
  gives the member of \<^verbatim>\<open>Object.prototype\<close> of that name, if there is one.
\<close>

record host =
  h_tables :: "string \<Rightarrow> nat option"
  h_views :: "string \<Rightarrow> nat option"
  posted :: "reply list"

definition post :: "reply \<Rightarrow> host \<Rightarrow> host" where
  "post r h = h\<lparr>posted := posted h @ [r]\<rparr>"

text \<open>
  \<^verbatim>\<open>Host.process\<close>.  The result says whether an exception leaves the function.  In the
  branch \<^verbatim>\<open>view_method\<close>, \<^verbatim>\<open>obj = this._views[msg.name]\<close> is a View, a member of
  \<^verbatim>\<open>Object.prototype\<close> or \<^verbatim>\<open>undefined\<close>, and the guard \<^verbatim>\<open>if (!obj)\<close> tests its
  truth value.  The call of a function found under \<^verbatim>\<open>msg.method\<close>, with its
  asynchronous replies, and the other commands are the parameter \<open>dispatch\<close>.  On a
  member of \<^verbatim>\<open>Object.prototype\<close> that has no function under \<^verbatim>\<open>msg.method\<close> the call
  throws a \<^verbatim>\<open>TypeError\<close>: the branch of \<^verbatim>\<open>msg.subscribe\<close> catches it and posts it,
  the other branch has no \<^verbatim>\<open>try\<close> block around the call.
\<close>

definition process ::
  "js_env \<Rightarrow> (message \<Rightarrow> host \<times> world \<Rightarrow> (error + unit) \<times> host \<times> world) \<Rightarrow> message \<Rightarrow>
   host \<times> world \<Rightarrow> (error + unit) \<times> host \<times> world" where
  "process env dispatch msg hw =
     (case hw of (h, w) \<Rightarrow>
        if cmd msg = ''view_method'' then
          (case h_views h (m_name msg) of
             Some obj \<Rightarrow> dispatch msg (h, w)
           | None \<Rightarrow>
               (if \<not> truthy (get_prop [] (m_name msg)) then
                  (Inr (),
                   post (ErrorReply (m_id msg) [(''message'', JString ''View is not initialized'')]) h,
                   w)
                else if builtin_method env (m_name msg) (m_method msg) then dispatch msg (h, w)
                else if m_subscribe msg then
                  (Inr (), post (CaughtReply (m_id msg) TypeError) h, w)
                else (Inl TypeError, h, w)))
        else dispatch msg (h, w))"

section \<open>The specification's vocabulary for views, tables and fixtures\<close>


text \<open>
  The sort handed to a two-sided context in the specification's words: for each of the
  \<open>g\<close> column groups in turn, every entry with its column index moved by the group number
  times the number of aggregates.
\<close>

definition replicated_sort :: "nat \<Rightarrow> nat \<Rightarrow> (int \<times> int) list \<Rightarrow> (int \<times> int) list" where
  "replicated_sort g a srt = concat (map (\<lambda>k. map (\<lambda>(i, ord). (i + int (k * a), ord)) srt) [0..<g])"

text \<open>
  Fixtures for evaluation: a store with nothing in it, loaders that are not used, the
  constants of a \<^verbatim>\<open>defaults.js\<close>, and an engine that never throws and reports a table
  with one integer column \<open>x\<close>.
\<close>

definition empty_world :: world where
  "empty_world = \<lparr>live = [], registered_gnodes = [], registered_contexts = [],
     update_delegates = [], schemas = (\<lambda>g. []), calls = [], console_error = [], invoked = [],
     tables = (\<lambda>r. None), views = (\<lambda>r. None), next_id = 0\<rparr>"

definition plain_loaders :: loaders where
  "plain_loaders = \<lparr>load_arrow_buffer = (\<lambda>b. Inl TypeError), papaparse = (\<lambda>s. []), trim = (\<lambda>s. s)\<rparr>"

definition plain_defaults :: defaults where
  "plain_defaults = \<lparr>SORT_ORDERS = [''none'', ''asc'', ''desc''], COLUMN_SEPARATOR_STRING = ''|''\<rparr>"

definition quiet_engine :: "nat \<Rightarrow> nat \<Rightarrow> engine_behaviour" where
  "quiet_engine sz cnt =
     \<lparr>throws = (\<lambda>opn. None), tbl_size = sz, unity_get_column_count = cnt,
      get_tblschema = [(''x'', DTYPE_INT32), (''psp_okey'', DTYPE_INT64)]\<rparr>"

definition failing_engine :: "engine_op \<Rightarrow> engine_behaviour" where
  "failing_engine opn =
     \<lparr>throws = (\<lambda>o'. if o' = opn then Some 0 else None), tbl_size = 0, unity_get_column_count = 0,
      get_tblschema = [(''x'', DTYPE_INT32), (''psp_okey'', DTYPE_INT64)]\<rparr>"

text \<open>
  A Table with the schema \<^verbatim>\<open>{x: "integer"}\<close> and \<^verbatim>\<open>limit = 2\<close>, made by the factory in
  the empty store, and a single-row update.
\<close>

definition limit2_world :: world where
  "limit2_world =
     snd (perspective_table plain_env plain_loaders (quiet_engine 0 0)
            (Data (ObjData [(''x'', JString ''integer'')])) \<lparr>o_index = None, o_limit = Some 2\<rparr>
            empty_world)"

definition one_row :: table_input where
  "one_row = Data (RowData [[(''x'', JNumber (Fin 1))]])"

text \<open>
  A configuration with a column pivot only, two aggregates and two sort entries, and the
  Table of \<open>limit2_world\<close>.
\<close>

definition pivot_config :: view_config where
  "pivot_config =
     \<lparr>row_pivot = None, column_pivot = Some [''x''], filter_cfg = None, filter_op = None,
      sort_cfg = Some [SortName ''x'', SortPair ''y'' ''desc''],
      aggregate = Some [\<lparr>a_op = ''sum'', a_column = ColumnName ''x'', a_name = None\<rparr>,
                        \<lparr>a_op = ''sum'', a_column = ColumnName ''y'', a_name = None\<rparr>],
      column_only = False, row_pivot_depth = None, column_pivot_depth = None\<rparr>"

definition limit2_table :: table where
  "limit2_table =
     \<lparr>t_gnode = 2, t_pool = 0, t_name = 4, initialized = False, index = [], computed = [],
      callbacks = [], t_views = [], limit = Some 2, limit_index = Index 0,
      t_delete_callback = None\<rparr>"

text \<open>
  The store after a View with \<open>pivot_config\<close> was made on that Table and a delete
  callback (number 99) was registered on the Table; a computed column, and the store after
  \<^verbatim>\<open>add_computed\<close> made a second Table with it (the engine then reports the columns
  \<open>x\<close> and \<open>y\<close>); a host that knows no View, a message
  for the View \<^verbatim>\<open>v\<close> and the same message for the name \<^verbatim>\<open>constructor\<close>; a
  \<open>dispatch\<close> that does nothing.
\<close>

definition pivot_world :: world where
  "pivot_world =
     snd (table_on_delete 3 99
            (snd (the (table_view plain_env plain_defaults (quiet_engine 0 4) 3 pivot_config
                         limit2_world))))"

definition computed_y :: computed_def where
  "computed_y = \<lparr>c_column = ''y'', c_func = 0, c_inputs = [''x''], c_type = Some ''integer''\<rparr>"

definition empty_host :: host where
  "empty_host = \<lparr>h_tables = (\<lambda>n. None), h_views = (\<lambda>n. None), posted = []\<rparr>"

definition view_message :: message where
  "view_message = \<lparr>cmd = ''view_method'', m_id = 5, m_name = ''v'', m_method = ''to_json'',
                    m_args = [], m_subscribe = False\<rparr>"

definition computed_engine :: engine_behaviour where
  "computed_engine =
     \<lparr>throws = (\<lambda>opn. None), tbl_size = 0, unity_get_column_count = 0,
      get_tblschema = [(''x'', DTYPE_INT32), (''y'', DTYPE_INT32), (''psp_okey'', DTYPE_INT64)]\<rparr>"

definition derived_world :: world where
  "derived_world = snd (add_computed computed_engine 3 [computed_y] limit2_world)"

definition constructor_message :: message where
  "constructor_message = view_message\<lparr>m_name := ''constructor''\<rparr>"

definition idle_dispatch :: "message \<Rightarrow> host \<times> world \<Rightarrow> (error + unit) \<times> host \<times> world" where
  "idle_dispatch msg hw = (Inr (), hw)"

text \<open>
  The specification's rule for \<^verbatim>\<open>limit_index\<close>: advanced by the inserted row count,
  wrapped modulo the limit when a limit is set.
\<close>

definition spec_advance :: "nat option \<Rightarrow> nat \<Rightarrow> nat \<Rightarrow> nat" where
  "spec_advance l i n = (case l of None \<Rightarrow> i + n | Some k \<Rightarrow> if k = 0 then i + n else (i + n) mod k)"

text \<open>
  The error of the engine submission of an update, if any: the first error thrown by the
  making of the scratch table, the computed columns (when the table has some) or the fill.
\<close>

definition submission_error :: "engine_behaviour \<Rightarrow> table \<Rightarrow> error option" where
  "submission_error beh t =
     (case thrown beh op_make_table of
        Some e \<Rightarrow> Some e
      | None \<Rightarrow>
          (case (if computed t = [] then None else thrown beh op_add_computed_column) of
             Some e \<Rightarrow> Some e
           | None \<Rightarrow> thrown beh op_fill))"

text \<open>
  A Table owns the Views of its list: they are distinct and each one refers back to the
  Table.  \<open>delete_views\<close> calls \<^verbatim>\<open>delete()\<close> on each View of a list in turn.
\<close>

definition owns_views :: "world \<Rightarrow> nat \<Rightarrow> bool" where
  "owns_views w tid =
     (case tables w tid of
        None \<Rightarrow> False
      | Some t \<Rightarrow>
          distinct (t_views t) \<and>
          (\<forall>v\<in>set (t_views t). case views w v of None \<Rightarrow> False | Some vw \<Rightarrow> v_table vw = Some tid))"

fun delete_views :: "nat list \<Rightarrow> world \<Rightarrow> world" where
  "delete_views [] w = w"
| "delete_views (v # vs) w = delete_views vs (snd (view_delete v w))"

section \<open>Evaluation on concrete inputs\<close>

text \<open>The definitions to unfold when the model is run on a concrete store.\<close>

lemmas fixture_defs = plain_env_def plain_loaders_def plain_defaults_def quiet_engine_def
  failing_engine_def empty_world_def limit2_world_def limit2_table_def pivot_config_def one_row_def
  pivot_world_def computed_y_def empty_host_def view_message_def derived_world_def computed_engine_def
  constructor_message_def idle_dispatch_def

lemmas store_defs = thrown_def alloc_def call_def fresh_def release_def release_opt_def
  rethrow_def new_table_def limit_set_def limit_or_max_def wrap_index_def register_context_def
  columns_of_def schema_of_def

lemmas parse_defs = parse_data_def schema_pdata_def get_prop_def hasOwnProperty_def
  has_property_def clean_data_def
  row_column_def coerce_cell_def overflows_int32_def infer_row_column_def or_string_def
  infer_type_def

lemmas table_defs = perspective_table_def table_pdata_def table_try_def update_def
  update_pdata_def update_try_def calculate_computed_def add_computed_def table_delete_def
  table_on_delete_def

lemmas view_defs = table_view_def default_pivots_def translate_sort_def filter_config_sort_def
  translate_aggregate_def make_context_def depth_or_def sides_def view_delete_def
  splice_view_def prune_callbacks_def string_to_aggtype_def

lemma limit2_table_eval: "tables limit2_world 3 = Some limit2_table"
  by (simp add: fixture_defs store_defs parse_defs table_defs Let_def)

section \<open>Properties of the type inference\<close>












subsection \<open>Row-oriented columns\<close>
















section \<open>Properties of views\<close>

lemma pivots_simps [simp]: "pivots None = []" "pivots (Some ps) = ps"
  by (simp_all add: pivots_def)

lemma default_pivots_fields:
  "row_pivot (default_pivots cfg) =
     Some (if pivots (row_pivot cfg) = [] \<and> pivots (column_pivot cfg) \<noteq> [] then [''psp_okey'']
           else pivots (row_pivot cfg))"
  "column_pivot (default_pivots cfg) = Some (pivots (column_pivot cfg))"
  "column_only (default_pivots cfg) =
     (if pivots (row_pivot cfg) = [] \<and> pivots (column_pivot cfg) \<noteq> [] then True
      else column_only cfg)"
  by (simp_all add: default_pivots_def pivots_def Let_def)

lemma filter_config_sort_fields:
  "row_pivot (filter_config_sort cfg) = row_pivot cfg"
  "column_pivot (filter_config_sort cfg) = column_pivot cfg"
  "column_only (filter_config_sort cfg) = column_only cfg"
  by (simp_all add: filter_config_sort_def split: option.splits)





lemma sort_groups_replicates:
  assumes "a > 0"
  shows "z \<le> g \<Longrightarrow> sort_groups z (g * a) a srt acc =
     Some (acc @ concat (map (\<lambda>k. map (\<lambda>(i, ord). (i + int (k * a), ord)) srt) [z..<g]))"
proof (induction "g - z" arbitrary: z acc)
  case 0
  then have "z = g" by simp
  then show ?case by (subst sort_groups.simps) simp
next
  case (Suc n)
  then have lt: "z < g" and n: "n = g - Suc z" by simp_all
  have "sort_groups z (g * a) a srt acc =
        sort_groups (Suc z) (g * a) a srt (acc @ map (\<lambda>(i, ord). (i + int (z * a), ord)) srt)"
    using lt assms by (subst sort_groups.simps) simp
  also have "\<dots> = Some ((acc @ map (\<lambda>(i, ord). (i + int (z * a), ord)) srt) @
        concat (map (\<lambda>k. map (\<lambda>(i, ord). (i + int (k * a), ord)) srt) [Suc z..<g]))"
    using Suc.hyps(1) [OF n] lt by simp
  finally show ?case using lt by (simp add: upt_conv_Cons)
qed

lemma sort_groups_replicated_sort:
  "a > 0 \<Longrightarrow> sort_groups 0 (g * a) a srt [] = Some (replicated_sort g a srt)"
  using sort_groups_replicates [of a 0 g srt "[]"] by (simp add: replicated_sort_def)

text \<open>
  Without aggregates the quotient is not a number of groups: the loop does not start when
  the engine reports no column, and does not end when it reports some.
\<close>

lemma sort_groups_no_columns: "sort_groups z 0 0 srt acc = Some acc"
  by (subst sort_groups.simps) simp

lemma sort_groups_some_terminates:
  assumes "sort_groups z u a srt acc = Some r"
  shows "a = 0 \<longrightarrow> u = 0"
  by (rule sort_groups.raw_induct [where P = "\<lambda>z u a srt acc r. a = 0 \<longrightarrow> u = 0", OF _ assms])
     (auto split: if_splits)

lemma sort_groups_diverges: "u > 0 \<Longrightarrow> sort_groups z u 0 srt acc = None"
  using sort_groups_some_terminates [of z u 0 srt acc] by (cases "sort_groups z u 0 srt acc") auto

lemma translate_aggregates_length:
  "translate_aggregates dflt co aggs = Inr (as, aggs') \<Longrightarrow> length as = length aggs"
  by (induction aggs arbitrary: as aggs') (auto split: sum.splits prod.splits)

lemma make_context_two_sided:
  assumes "pivots (column_pivot cfg) \<noteq> []" and "aggregates \<noteq> []"
    and "unity_get_column_count beh = g * length aggregates"
  shows "make_context beh t cfg nm fop filters aggregates srt w =
     Some (next_id w, 2,
       (w\<lparr>live := live w @ [Context (next_id w)], next_id := Suc (next_id w),
          registered_contexts := registered_contexts w @
             [(t_pool t, t_gnode t, nm, TWO_SIDED_CONTEXT, next_id w)],
          calls := calls w @
             [make_context_two (t_gnode t) (pivots (row_pivot cfg)) (pivots (column_pivot cfg)) fop filters aggregates,
              expand_to_depth (next_id w) (Some HEADER_ROW) (depth_or (row_pivot_depth cfg) (pivots (row_pivot cfg))),
              expand_to_depth (next_id w) (Some HEADER_COLUMN) (depth_or (column_pivot_depth cfg) (pivots (column_pivot cfg)))]
             @ (if srt = [] then [] else [sort_context (next_id w) (replicated_sort g (length aggregates) srt)])\<rparr>))"
  using assms
  by (simp add: make_context_def Let_def alloc_def call_def register_context_def
        sort_groups_replicated_sort)


lemma default_pivots_other:
  "aggregate (default_pivots cfg) = aggregate cfg"
  "sort_cfg (default_pivots cfg) = sort_cfg cfg"
  "filter_cfg (default_pivots cfg) = filter_cfg cfg"
  "filter_op (default_pivots cfg) = filter_op cfg"
  by (simp_all add: default_pivots_def Let_def)

lemma filter_config_sort_other:
  "aggregate (filter_config_sort cfg) = aggregate cfg"
  "filter_cfg (filter_config_sort cfg) = filter_cfg cfg"
  by (simp_all add: filter_config_sort_def split: option.splits)

text \<open>
  Claim C2.  For a two-sided view whose aggregate list has \<open>A > 0\<close> entries, on an engine
  that reports \<open>G * A\<close> columns for the context, \<^verbatim>\<open>view\<close> returns, and the sort it
  applies to the context holds, for each group \<open>k\<close> from 0 to \<open>G - 1\<close> in turn, every
  translated sort entry \<open>(i, order)\<close> as \<open>(i + k * A, order)\<close>.  The sort is applied after
  the context is made and expanded, and no sort is applied when there is no entry.
\<close>

theorem two_sided_sort_replication:
  assumes "tables w tid = Some t"
    and "pivots (column_pivot cfg) \<noteq> []"
    and "aggregate cfg = Some aggs" and "aggs \<noteq> []"
    and "translate_aggregates dflt (column_only (default_pivots cfg)) aggs = Inr (aggregates, aggs')"
    and "sort_cfg cfg = Some entries"
    and "translate_sort dflt (Some aggs) entries = Inr srt"
    and "unity_get_column_count beh = G * length aggs"
  shows "\<exists>vid v w' pre.
           table_view env dflt beh tid cfg w = Some (Inr vid, w')
           \<and> views w' vid = Some v \<and> nsides v = 2
           \<and> calls w' = calls w @ pre @
                (if srt = [] then [] else [sort_context (ctx v) (replicated_sort G (length aggs) srt)])
           \<and> (\<forall>c s. sort_context c s \<notin> set pre)"
proof -
  let ?cfg2 = "(filter_config_sort (default_pivots cfg))\<lparr>aggregate := Some aggs'\<rparr>"
  have len: "length aggregates = length aggs"
    using translate_aggregates_length [OF assms(5)] .
  have cp: "pivots (column_pivot ?cfg2) \<noteq> []"
    using assms(2) by (simp add: filter_config_sort_fields default_pivots_fields)
  have ne: "aggregates \<noteq> []" using len assms(4) by auto
  have u: "unity_get_column_count beh = G * length aggregates" using assms(8) len by simp
  note mc = make_context_two_sided [OF cp ne u]
  show ?thesis
    unfolding table_view_def
    by (simp add: assms(1,3,5,6,7) fresh_def Let_def default_pivots_other
          filter_config_sort_other filter_config_sort_fields mc len)
qed

theorem two_sided_sort_replication_witness:
  "\<exists>vid v w' pre.
      table_view plain_env plain_defaults (quiet_engine 0 4) 3 pivot_config limit2_world
        = Some (Inr vid, w')
      \<and> views w' vid = Some v \<and> nsides v = 2
      \<and> calls w' = calls limit2_world @ pre @ [sort_context (ctx v) [(0, 1), (1, 2), (2, 1), (3, 2)]]
      \<and> (\<forall>c s. sort_context c s \<notin> set pre)"
proof -
  let ?aggs = "[\<lparr>a_op = ''sum'', a_column = ColumnName ''x'', a_name = None\<rparr>,
               \<lparr>a_op = ''sum'', a_column = ColumnName ''y'', a_name = None\<rparr>]"
  have h2: "pivots (column_pivot pivot_config) \<noteq> []" by (simp add: pivots_def pivot_config_def)
  have h3: "aggregate pivot_config = Some ?aggs" by (simp add: pivot_config_def)
  have h4: "?aggs \<noteq> []" by simp
  have h5: "translate_aggregates plain_defaults (column_only (default_pivots pivot_config)) ?aggs =
      Inr ([(''x'', Some AGGTYPE_ANY, [''x'']), (''y'', Some AGGTYPE_ANY, [''y''])],
           [\<lparr>a_op = ''any'', a_column = ColumnList [''x''], a_name = None\<rparr>,
            \<lparr>a_op = ''any'', a_column = ColumnList [''y''], a_name = None\<rparr>])"
    by (simp add: fixture_defs view_defs Let_def)
  have h6: "sort_cfg pivot_config = Some [SortName ''x'', SortPair ''y'' ''desc'']"
    by (simp add: pivot_config_def)
  have h7: "translate_sort plain_defaults (Some ?aggs) [SortName ''x'', SortPair ''y'' ''desc'']
      = Inr [(0, 1), (1, 2)]"
    by (simp add: fixture_defs view_defs Let_def)
  have h8: "unity_get_column_count (quiet_engine 0 4) = 2 * length ?aggs"
    by (simp add: quiet_engine_def)
  have r: "replicated_sort 2 (length ?aggs) [(0, 1), (1, 2)] = [(0, 1), (1, 2), (2, 1), (3, 2)]"
    by (simp add: replicated_sort_def upt_rec)
  show ?thesis
    using two_sided_sort_replication [OF limit2_table_eval h2 h3 h4 h5 h6 h7 h8,
        of plain_env]
    unfolding r by simp
qed

section \<open>Properties of tables\<close>

subsection \<open>Updates\<close>

lemma foldl_call:
  "foldl (\<lambda>w' d. call (f d) w') w xs = w\<lparr>calls := calls w @ map f xs\<rparr>"
  by (induction xs arbitrary: w) (simp_all add: call_def)

lemma calculate_computed_result:
  "calculate_computed beh tbl defs w =
     (if defs = [] then (None, w)
      else case thrown beh op_add_computed_column of
             Some e \<Rightarrow> (Some e, w)
           | None \<Rightarrow> (None, w\<lparr>calls := calls w @
                 map (\<lambda>d. table_add_computed_column tbl (c_column d) (computed_dtype (c_type d))
                            (c_func d) (c_inputs d)) defs\<rparr>))"
  by (simp add: calculate_computed_def foldl_call split: option.splits)

lemma update_result:
  assumes "tables w tid = Some t" and "update_pdata env ld w t data = Inr p"
  shows "\<exists>w'. update env ld beh tid data w = (Inr (), w')
           \<and> set (live w') \<subseteq> set (live w)
           \<and> console_error w' = console_error w @
                (case submission_error beh t of None \<Rightarrow> [] | Some e \<Rightarrow> [e])
           \<and> tables w' tid = Some (t\<lparr>
                limit_index := (if thrown beh op_make_table = None
                                then wrap_index (limit t) (plus_index (limit_index t) (row_count p))
                                else limit_index t),
                initialized := (if submission_error beh t = None then True else initialized t)\<rparr>)
           \<and> (\<forall>r. r \<noteq> tid \<longrightarrow> tables w' r = tables w r)
           \<and> views w' = views w
           \<and> registered_gnodes w' = registered_gnodes w
           \<and> registered_contexts w' = registered_contexts w"
  using assms
  by (auto simp: update_def update_try_def calculate_computed_result submission_error_def
        alloc_def call_def release_def release_opt_def Let_def
        split: option.splits prod.splits if_splits)


text \<open>
  When the data do not normalise, the error leaves \<^verbatim>\<open>update\<close> before the \<^verbatim>\<open>try\<close>
  block is entered: the schema handle and its type vector stay live.
\<close>

lemma update_parse_error_propagates:
  assumes "tables w tid = Some t" and "update_pdata env ld w t data = Inl e"
  shows "\<exists>w'. update env ld beh tid data w = (Inl e, w')
           \<and> Schema (next_id w) \<in> set (live w') \<and> Vector (Suc (next_id w)) \<in> set (live w')
           \<and> tables w' = tables w"
  using assms by (simp add: update_def alloc_def)

text \<open>
  On a Table whose \<^verbatim>\<open>limit_index\<close> is undefined, an update that the engine accepts
  leaves NaN.
\<close>

lemma update_without_limit_index:
  assumes "tables w tid = Some t" and "limit_index t = Undefined"
    and "update_pdata env ld w t data = Inr p" and "throws beh op_make_table = None"
  shows "\<exists>t' w'. update env ld beh tid data w = (Inr (), w') \<and> tables w' tid = Some t'
           \<and> limit_index t' = NotANumber"
proof -
  have "thrown beh op_make_table = None" using assms(4) by (simp add: thrown_def)
  with update_result [OF assms(1,3), of beh] assms(2) show ?thesis
    by (auto simp: wrap_index_def split: option.splits)
qed

lemma one_row_pdata_limit2:
  "update_pdata plain_env plain_loaders limit2_world limit2_table one_row =
     Inr \<lparr>row_count = 1, is_arrow = False, names = [''x''], types = [DTYPE_INT32],
          cdata = [[JNumber (Fin 1)]]\<rparr>"
  by (simp add: fixture_defs store_defs parse_defs table_defs Let_def)

text \<open>
  Claim C5, as amended.  An update whose data normalise returns, and when the engine
  makes the scratch table it leaves the Table with its \<^verbatim>\<open>limit_index\<close> advanced by the
  row count of the data submitted, modulo the limit when a limit is set, provided
  \<^verbatim>\<open>limit_index\<close> was a number, as for every Table made by the factory; the advance
  precedes the computed columns and the fill and does not depend on them.  On a Table
  whose \<^verbatim>\<open>limit_index\<close> is undefined, as for every Table made by \<^verbatim>\<open>add_computed\<close>,
  the result is NaN.  When the engine does not make the scratch table, \<^verbatim>\<open>limit_index\<close>
  is unchanged.  On the Table made with \<^verbatim>\<open>limit = 2\<close> and \<^verbatim>\<open>limit_index = 0\<close>, three
  single-row updates give 1, 0, 1, as the instance after the theorem shows.
\<close>

theorem update_advances_limit_index:
  assumes "tables w tid = Some t" and "update_pdata env ld w t data = Inr p"
  shows "\<exists>t' w'. update env ld beh tid data w = (Inr (), w') \<and> tables w' tid = Some t'
           \<and> limit t' = limit t
           \<and> limit_index t' =
                 (if throws beh op_make_table \<noteq> None then limit_index t
                  else case limit_index t of
                         Index i \<Rightarrow> Index (spec_advance (limit t) i (row_count p))
                       | _ \<Rightarrow> NotANumber)"
proof -
  have "(thrown beh op_make_table = None) = (throws beh op_make_table = None)"
    by (simp add: thrown_def split: option.splits)
  with update_result [OF assms, of beh] show ?thesis
    by (cases "limit_index t")
       (auto simp: wrap_index_def spec_advance_def split: option.splits)
qed

theorem update_advances_limit_index_witness:
  "map_option limit_index (tables limit2_world 3) = Some (Index 0)
   \<and> map_option limit_index (tables (snd (update plain_env plain_loaders (quiet_engine 0 0) 3 one_row
        limit2_world)) 3) = Some (Index 1)
   \<and> map_option limit_index (tables (snd (update plain_env plain_loaders (quiet_engine 0 0) 3 one_row
        (snd (update plain_env plain_loaders (quiet_engine 0 0) 3 one_row limit2_world)))) 3)
        = Some (Index 0)
   \<and> map_option limit_index (tables (snd (update plain_env plain_loaders (quiet_engine 0 0) 3 one_row
        (snd (update plain_env plain_loaders (quiet_engine 0 0) 3 one_row
          (snd (update plain_env plain_loaders (quiet_engine 0 0) 3 one_row limit2_world)))))) 3)
        = Some (Index 1)"
proof -
  have h2: "limit_index limit2_table = Index 0" by (simp add: limit2_table_def)
  have h4: "throws (quiet_engine 0 0) op_make_table = None" by (simp add: quiet_engine_def)
  have l: "spec_advance (limit limit2_table) 0 1 = 1"
    by (simp add: limit2_table_def spec_advance_def)
  from update_advances_limit_index [OF limit2_table_eval one_row_pdata_limit2,
      of "quiet_engine 0 0"] h2 h4
  have first: "map_option limit_index (tables (snd (update plain_env plain_loaders (quiet_engine 0 0) 3
      one_row limit2_world)) 3) = Some (Index 1)"
    using l by auto
  have second: "map_option limit_index (tables (snd (update plain_env plain_loaders (quiet_engine 0 0) 3 one_row
        (snd (update plain_env plain_loaders (quiet_engine 0 0) 3 one_row limit2_world)))) 3)
        = Some (Index 0)"
    by (simp add: fixture_defs store_defs parse_defs table_defs Let_def)
  have third: "map_option limit_index (tables (snd (update plain_env plain_loaders (quiet_engine 0 0) 3 one_row
        (snd (update plain_env plain_loaders (quiet_engine 0 0) 3 one_row
          (snd (update plain_env plain_loaders (quiet_engine 0 0) 3 one_row limit2_world)))))) 3)
        = Some (Index 1)"
    by (simp add: fixture_defs store_defs parse_defs table_defs Let_def)
  show ?thesis using limit2_table_eval h2 first second third by simp
qed

text \<open>
  Claim C5 as stated fails on two inputs.  On the Table made by \<^verbatim>\<open>add_computed\<close>,
  whose \<^verbatim>\<open>limit_index\<close> is undefined, a single-row update that the engine accepts leaves
  NaN.  On the Table made with \<^verbatim>\<open>limit = 2\<close>, a single-row update whose fill throws
  inserts no row (the only call added is the making of the scratch table), and
  \<^verbatim>\<open>limit_index\<close> has moved from 0 to 1.
\<close>

theorem update_limit_index_counterexample:
  "map_option limit_index (tables derived_world 8) = Some Undefined
   \<and> fst (update plain_env plain_loaders (quiet_engine 0 0) 8 one_row derived_world) = Inr ()
   \<and> map_option limit_index (tables (snd (update plain_env plain_loaders (quiet_engine 0 0) 8
        one_row derived_world)) 8) = Some NotANumber
   \<and> map_option limit_index (tables limit2_world 3) = Some (Index 0)
   \<and> calls (snd (update plain_env plain_loaders (failing_engine op_fill) 3 one_row limit2_world))
       = calls limit2_world @
           [make_table 1 [''x''] [DTYPE_INT32] [[JNumber (Fin 1)]] (Index 0) 2 [] False False]
   \<and> map_option limit_index (tables (snd (update plain_env plain_loaders (failing_engine op_fill) 3
        one_row limit2_world)) 3) = Some (Index 1)"
  by (simp add: fixture_defs store_defs parse_defs table_defs Let_def)

text \<open>
  Claim C9, as amended.  An update whose data normalise returns normally whatever the
  engine does, and no handle taken during the call (scratch table, schema, type vector)
  is live afterwards, on success as on failure.  When the engine submission fails, the
  error is logged, the other Tables and the Views are untouched, and the Table is unchanged
  except for \<^verbatim>\<open>limit_index\<close>: it is unchanged when the making of the scratch table
  failed, and has already been advanced when a later step (computed columns, fill) failed.
\<close>

theorem update_failure_is_contained:
  assumes "tables w tid = Some t" and "update_pdata env ld w t data = Inr p"
  shows "\<exists>w'. update env ld beh tid data w = (Inr (), w')
           \<and> set (live w') \<subseteq> set (live w)
           \<and> (\<forall>e. submission_error beh t = Some e \<longrightarrow>
                console_error w' = console_error w @ [e]
                \<and> tables w' tid = Some (t\<lparr>limit_index :=
                     (if thrown beh op_make_table = None
                      then wrap_index (limit t) (plus_index (limit_index t) (row_count p))
                      else limit_index t)\<rparr>)
                \<and> (\<forall>r. r \<noteq> tid \<longrightarrow> tables w' r = tables w r)
                \<and> views w' = views w)"
  using update_result [OF assms, of beh] by auto

theorem update_failure_is_contained_witness:
  "\<exists>w'. update plain_env plain_loaders (failing_engine op_fill) 3 one_row limit2_world = (Inr (), w')
        \<and> set (live w') \<subseteq> set (live limit2_world)
        \<and> console_error w' = console_error limit2_world @ [EngineError 0]
        \<and> tables w' 3 = Some (limit2_table\<lparr>limit_index := Index 1\<rparr>)"
proof -
  have e: "submission_error (failing_engine op_fill) limit2_table = Some (EngineError 0)"
    by (simp add: submission_error_def failing_engine_def thrown_def limit2_table_def)
  have m: "thrown (failing_engine op_fill) op_make_table = None"
    by (simp add: failing_engine_def thrown_def)
  have i: "wrap_index (limit limit2_table) (plus_index (limit_index limit2_table) 1) = Index 1"
    by (simp add: limit2_table_def wrap_index_def limit_set_def)
  from update_failure_is_contained [OF limit2_table_eval one_row_pdata_limit2,
      of "failing_engine op_fill"] e m i
  show ?thesis by auto
qed

text \<open>
  Claim C9 as stated fails: when the fill throws, the error is caught and logged, but
  \<^verbatim>\<open>limit_index\<close> has moved from 0 to 1 although no row was applied.
\<close>

theorem update_failure_counterexample:
  "map_option limit_index (tables limit2_world 3) = Some (Index 0)
   \<and> fst (update plain_env plain_loaders (failing_engine op_fill) 3 one_row limit2_world) = Inr ()
   \<and> console_error (snd (update plain_env plain_loaders (failing_engine op_fill) 3 one_row
        limit2_world)) = [EngineError 0]
   \<and> map_option limit_index (tables (snd (update plain_env plain_loaders (failing_engine op_fill) 3
        one_row limit2_world)) 3) = Some (Index 1)
   \<and> tables (snd (update plain_env plain_loaders (failing_engine op_fill) 3 one_row limit2_world)) 3
       \<noteq> tables limit2_world 3"
  by (simp add: fixture_defs store_defs parse_defs table_defs Let_def)

subsection \<open>Construction\<close>

text \<open>
  Every Table the factory returns has a number as its \<^verbatim>\<open>limit_index\<close>, and the limit
  of the options.
\<close>

lemma wrap_index_Index: "\<exists>j. wrap_index l (Index i) = Index j"
  by (simp add: wrap_index_def split: option.splits)

lemma chunk_loop_index:
  "chunk_loop beh p lmt idx pool gnode cd tbl li w = (r, tbl', li', w') \<Longrightarrow>
   \<exists>i. li = Index i \<Longrightarrow> \<exists>j. li' = Index j"
proof (induction beh p lmt idx pool gnode cd tbl li w rule: chunk_loop.induct)
  case (1 beh p lmt idx pool gnode cd tbl li w)
  from "1.prems"(2) obtain i where li: "li = Index i" by blast
  show ?case
  proof (cases "cd \<noteq> [] \<and> length (hd cd) > 0")
    case False
    then show ?thesis using "1.prems" by (subst (asm) chunk_loop.simps) auto
  next
    case True
    show ?thesis
    proof (cases "thrown beh op_make_table")
      case (Some e)
      then show ?thesis using True "1.prems" by (subst (asm) chunk_loop.simps) (auto simp: Let_def)
    next
      case None
      note mk = None
      obtain tbl2 w2 where al: "alloc Tbl (call (make_table (length (hd (map (take CHUNKED_THRESHOLD) cd)))
            (names p) (types p) (map (take CHUNKED_THRESHOLD) cd) li
            (limit_or_max lmt) idx (is_arrow p) False) (release (Tbl tbl) w)) = (tbl2, w2)"
        by (cases "alloc Tbl (call (make_table (length (hd (map (take CHUNKED_THRESHOLD) cd)))
            (names p) (types p) (map (take CHUNKED_THRESHOLD) cd) li
            (limit_or_max lmt) idx (is_arrow p) False) (release (Tbl tbl) w))") auto
      obtain j where j: "wrap_index lmt (plus_index li (length (hd (map (take CHUNKED_THRESHOLD) cd)))) = Index j"
        using wrap_index_Index li by (metis plus_index.simps(1))
      show ?thesis
      proof (cases "thrown beh op_fill")
        case (Some e)
        then show ?thesis using True mk al li "1.prems"(1)
          by (subst (asm) chunk_loop.simps) (auto simp: Let_def wrap_index_Index)
      next
        case None
        have rec: "chunk_loop beh p lmt idx pool gnode (map (drop CHUNKED_THRESHOLD) cd) tbl2
            (wrap_index lmt (plus_index li (length (hd (map (take CHUNKED_THRESHOLD) cd)))))
            (call (fill pool gnode tbl2) w2) = (r, tbl', li', w')"
          using True mk al None "1.prems"(1)
          by (subst (asm) chunk_loop.simps) (simp add: Let_def)
        show ?thesis
          using "1.IH" [OF True refl refl refl mk al [symmetric] refl None rec] j by auto
      qed
    qed
  qed
qed


lemma chunk_loop_wrapped:
  "chunk_loop beh p lmt idx pool gnode cd tbl (wrap_index lmt (Index n)) w = (r, tbl', li', w')
   \<Longrightarrow> \<exists>j. li' = Index j"
  by (erule chunk_loop_index) (rule wrap_index_Index)

lemma table_try_limit_index:
  assumes "table_try beh p chunked idx lmt w = (Inr ref, w')"
  shows "\<exists>t i. tables w' ref = Some t \<and> limit_index t = Index i \<and> limit t = lmt \<and> index t = idx
           \<and> computed t = [] \<and> t_views t = []"
  using assms
  by (auto simp: table_try_def rethrow_def Let_def new_table_def fresh_def release_def
        wrap_index_Index
        split: option.splits prod.splits if_splits dest: chunk_loop_wrapped)

lemma factory_limit_index:
  assumes "perspective_table env ld beh data options w = (Inr ref, w')"
  shows "\<exists>t i. tables w' ref = Some t \<and> limit_index t = Index i \<and> limit t = o_limit options"
  using assms table_try_limit_index
  by (fastforce simp: perspective_table_def Let_def split: sum.splits if_splits)

text \<open>
  Claim C6, as amended.  With an index and a limit both set (a non-empty index name and a
  nonzero limit), the factory never returns a Table and leaves the store as it was: no
  pool, no handle, nothing registered.  The data are normalised before the options are
  checked: the error is the conflicting-options error whenever the data normalise, and
  the error of the normalisation otherwise.
\<close>

theorem conflicting_options:
  assumes "o_index options = Some idx" and "idx \<noteq> []" and "limit_set (o_limit options)"
  shows "perspective_table env ld beh data options w =
           (Inl (case table_pdata env ld data of Inl e \<Rightarrow> e | Inr p \<Rightarrow> ConflictingOptions), w)"
  using assms by (simp add: perspective_table_def split: sum.splits)

theorem conflicting_options_witness:
  "perspective_table plain_env plain_loaders (quiet_engine 0 0)
     (Data (ObjData [(''x'', JString ''integer'')])) \<lparr>o_index = Some ''x'', o_limit = Some 2\<rparr>
     empty_world = (Inl ConflictingOptions, empty_world)"
proof -
  have h1: "o_index \<lparr>o_index = Some ''x'', o_limit = Some 2\<rparr> = Some ''x''" by simp
  have h2: "''x'' \<noteq> []" by simp
  have h3: "limit_set (o_limit \<lparr>o_index = Some ''x'', o_limit = Some 2\<rparr>)"
    by (simp add: limit_set_def)
  have p: "table_pdata plain_env plain_loaders (Data (ObjData [(''x'', JString ''integer'')])) =
      Inr \<lparr>row_count = 0, is_arrow = False, names = [''x''], types = [DTYPE_INT32], cdata = [[]]\<rparr>"
    by (simp add: table_pdata_def parse_data_def schema_pdata_def get_prop_def)
  from conflicting_options [OF h1 h2 h3, of plain_env plain_loaders "quiet_engine 0 0"
      "Data (ObjData [(''x'', JString ''integer'')])" empty_world] p
  show ?thesis by simp
qed

text \<open>
  Claim C6 as stated fails: on an empty array of rows, with an index and a limit both set,
  the factory throws the empty-grid error of the normalisation, not the
  conflicting-options error.
\<close>

theorem conflicting_options_counterexample:
  "perspective_table plain_env plain_loaders (quiet_engine 0 0) (Data (RowData []))
     \<lparr>o_index = Some ''x'', o_limit = Some 2\<rparr> empty_world
     = (Inl EmptyGridNotImplemented, empty_world)
   \<and> EmptyGridNotImplemented \<noteq> ConflictingOptions"
  by (simp add: perspective_table_def table_pdata_def parse_data_def)

subsection \<open>Computed columns\<close>

lemma add_computed_returns:
  assumes "tables w tid = Some t" and "\<forall>opn. throws beh opn = None"
  shows "\<exists>ref w'. add_computed beh tid new_defs w = (Inr ref, w')"
  using assms
  by (auto simp: add_computed_def calculate_computed_result new_table_def thrown_def
        alloc_def call_def fresh_def release_def Let_def
        split: option.splits prod.splits if_splits)

text \<open>
  Claim C10.  The Table returned by \<^verbatim>\<open>add_computed\<close> has the index of the original
  and the previous computed-column definitions followed by the new ones, but its
  \<^verbatim>\<open>limit\<close> and \<^verbatim>\<open>limit_index\<close> are undefined, whatever the limit of the original.
\<close>

theorem add_computed_drops_limit:
  assumes "tables w tid = Some t" and "add_computed beh tid new_defs w = (Inr ref, w')"
  shows "\<exists>t'. tables w' ref = Some t' \<and> index t' = index t
           \<and> computed t' = computed t @ new_defs
           \<and> limit t' = None \<and> limit_index t' = Undefined"
  using assms
  by (auto simp: add_computed_def calculate_computed_result new_table_def rethrow_def
        alloc_def call_def fresh_def release_def Let_def
        split: option.splits prod.splits if_splits)

theorem add_computed_drops_limit_witness:
  "limit limit2_table = Some 2
   \<and> (\<exists>ref w' t'. add_computed (quiet_engine 0 0) 3 [computed_y] limit2_world = (Inr ref, w')
         \<and> tables w' ref = Some t' \<and> index t' = index limit2_table
         \<and> computed t' = [computed_y] \<and> limit t' = None \<and> limit_index t' = Undefined)"
proof -
  have q: "\<forall>opn. throws (quiet_engine 0 0) opn = None" by (simp add: quiet_engine_def)
  from add_computed_returns [OF limit2_table_eval q] obtain ref w' where
    a: "add_computed (quiet_engine 0 0) 3 [computed_y] limit2_world = (Inr ref, w')"
    by blast
  from add_computed_drops_limit [OF limit2_table_eval a] a show ?thesis
    by (auto simp: limit2_table_def)
qed

subsection \<open>Deletion\<close>

lemma indexOf_member:
  "x \<in> set xs \<Longrightarrow>
     0 \<le> indexOf xs x \<and>
     take (nat (indexOf xs x)) xs @ drop (Suc (nat (indexOf xs x))) xs = remove1 x xs"
proof (induction xs)
  case Nil
  then show ?case by simp
next
  case (Cons y ys)
  show ?case
  proof (cases "y = x")
    case True
    then show ?thesis by simp
  next
    case False
    with Cons.prems have "x \<in> set ys" by simp
    from Cons.IH [OF this] False show ?thesis
      by (simp add: Let_def nat_add_distrib)
  qed
qed

lemma splice_view_member: "v \<in> set vs \<Longrightarrow> splice_view vs v = remove1 v vs"
  using indexOf_member [of v vs] by (simp add: splice_view_def Let_def)

lemma view_delete_owned:
  assumes "tables w tid = Some t" and "v \<in> set (t_views t)"
    and "views w v = Some vw" and "v_table vw = Some tid"
  shows "\<exists>w' t'. view_delete v w = (Inr (), w') \<and> tables w' tid = Some t'
           \<and> t_views t' = remove1 v (t_views t)
           \<and> t_pool t' = t_pool t \<and> t_gnode t' = t_gnode t
           \<and> t_delete_callback t' = t_delete_callback t
           \<and> (\<forall>u. u \<noteq> v \<longrightarrow> views w' u = views w u)"
  using assms
  by (auto simp: view_delete_def prune_callbacks_def release_def Let_def splice_view_member
        split: option.splits)

lemma delete_views_empties:
  assumes "tables w tid = Some t" and "distinct (t_views t)"
    and "distinct vs" and "set vs = set (t_views t)"
    and "\<forall>v\<in>set vs. \<exists>vw. views w v = Some vw \<and> v_table vw = Some tid"
  shows "\<exists>t'. tables (delete_views vs w) tid = Some t' \<and> t_views t' = []
           \<and> t_pool t' = t_pool t \<and> t_gnode t' = t_gnode t
           \<and> t_delete_callback t' = t_delete_callback t"
  using assms
proof (induction vs arbitrary: w t)
  case Nil
  then show ?case by simp
next
  case (Cons v vs)
  from Cons.prems obtain vw where vw: "views w v = Some vw" "v_table vw = Some tid" by auto
  have mem: "v \<in> set (t_views t)" using Cons.prems(4) by auto
  from view_delete_owned [OF Cons.prems(1) mem vw] obtain w' t' where
    d: "view_delete v w = (Inr (), w')" "tables w' tid = Some t'"
       "t_views t' = remove1 v (t_views t)"
       "t_pool t' = t_pool t" "t_gnode t' = t_gnode t"
       "t_delete_callback t' = t_delete_callback t"
       "\<forall>u. u \<noteq> v \<longrightarrow> views w' u = views w u"
    by blast
  have dist': "distinct (t_views t')" using d(3) Cons.prems(2) by simp
  have dist: "distinct vs" and notin: "v \<notin> set vs" using Cons.prems(3) by simp_all
  have sets: "set vs = set (t_views t')"
    using d(3) Cons.prems(2,4) notin by (auto simp: set_remove1_eq)
  have own: "\<forall>u\<in>set vs. \<exists>vw. views w' u = Some vw \<and> v_table vw = Some tid"
    using Cons.prems(5) d(7) notin by auto
  from Cons.IH [OF d(2) dist' dist sets own] d show ?case by simp
qed

lemma pivot_world_table:
  "tables pivot_world 3 = Some (limit2_table\<lparr>t_views := [7], t_delete_callback := Some 99\<rparr>)"
  by (simp add: fixture_defs store_defs parse_defs table_defs view_defs Let_def sort_groups.simps)

lemma pivot_world_owns: "owns_views pivot_world 3"
  by (simp add: owns_views_def fixture_defs store_defs parse_defs table_defs view_defs Let_def
        sort_groups.simps)

text \<open>
  Claim C7.  \<^verbatim>\<open>delete()\<close> on a Table that has a View fails with the table-has-views
  error and changes nothing.  For a Table that owns its Views, once \<^verbatim>\<open>delete()\<close> was
  called on each of them, in any order, \<^verbatim>\<open>delete()\<close> on the Table succeeds: the graph node is not
  registered with the pool any more, the pool and the graph node are released, and the
  delete callback, if one is registered, is invoked.
\<close>

theorem table_delete_requires_no_views:
  assumes "tables w tid = Some t"
  shows "(t_views t \<noteq> [] \<longrightarrow> table_delete tid w = (Inl TableHasContexts, w))
       \<and> (owns_views w tid \<and> distinct vs \<and> set vs = set (t_views t) \<longrightarrow>
            (\<exists>w'. table_delete tid (delete_views vs w) = (Inr (), w')
                \<and> (t_pool t, t_gnode t) \<notin> set (registered_gnodes w')
                \<and> Pool (t_pool t) \<notin> set (live w') \<and> Gnode (t_gnode t) \<notin> set (live w')
                \<and> invoked w' = invoked (delete_views vs w) @
                     (case t_delete_callback t of None \<Rightarrow> [] | Some cb \<Rightarrow> [cb])))"
proof (intro conjI impI)
  assume "t_views t \<noteq> []"
  then show "table_delete tid w = (Inl TableHasContexts, w)"
    using assms by (simp add: table_delete_def)
next
  assume a: "owns_views w tid \<and> distinct vs \<and> set vs = set (t_views t)"
  then have dist: "distinct (t_views t)"
    and own: "\<forall>v\<in>set vs. \<exists>vw. views w v = Some vw \<and> v_table vw = Some tid"
    using assms by (auto simp: owns_views_def split: option.splits)
  from a have dvs: "distinct vs" and svs: "set vs = set (t_views t)" by simp_all
  from delete_views_empties [OF assms dist dvs svs own] obtain t' where
    t': "tables (delete_views vs w) tid = Some t'" "t_views t' = []"
        "t_pool t' = t_pool t" "t_gnode t' = t_gnode t"
        "t_delete_callback t' = t_delete_callback t"
    by blast
  then show "\<exists>w'. table_delete tid (delete_views vs w) = (Inr (), w')
                \<and> (t_pool t, t_gnode t) \<notin> set (registered_gnodes w')
                \<and> Pool (t_pool t) \<notin> set (live w') \<and> Gnode (t_gnode t) \<notin> set (live w')
                \<and> invoked w' = invoked (delete_views vs w) @
                     (case t_delete_callback t of None \<Rightarrow> [] | Some cb \<Rightarrow> [cb])"
    by (auto simp: table_delete_def release_def Let_def split: option.splits)
qed

theorem table_delete_requires_no_views_witness:
  "table_delete 3 pivot_world = (Inl TableHasContexts, pivot_world)
   \<and> (\<exists>w'. table_delete 3 (delete_views [7] pivot_world) = (Inr (), w')
         \<and> (0, 2) \<notin> set (registered_gnodes w')
         \<and> Pool 0 \<notin> set (live w') \<and> Gnode 2 \<notin> set (live w')
         \<and> invoked w' = [99])"
proof -
  have i: "invoked (delete_views [7] pivot_world) = []"
    by (simp add: fixture_defs store_defs parse_defs table_defs view_defs Let_def
          sort_groups.simps)
  from table_delete_requires_no_views [OF pivot_world_table, of "[7]"] pivot_world_owns i
  show ?thesis by (simp add: limit2_table_def)
qed

section \<open>Properties of the host\<close>

text \<open>Every member of \<^verbatim>\<open>Object.prototype\<close> passes the guard \<^verbatim>\<open>if (!obj)\<close>.\<close>

lemma Object_prototype_truthy:
  "hasOwnProperty Object_prototype name \<Longrightarrow> truthy (get_prop [] name)"
  by (auto simp: hasOwnProperty_def get_prop_def Object_prototype_def split: if_splits)

text \<open>
  A \<^verbatim>\<open>view_method\<close> message whose name is neither registered nor the name of a member
  of \<^verbatim>\<open>Object.prototype\<close> makes \<^verbatim>\<open>process\<close> post exactly one reply, the error
  \<^verbatim>\<open>View is not initialized\<close> under the id of the request, and return normally.
\<close>

lemma absent_view_reply:
  assumes "cmd msg = ''view_method''" and "h_views h (m_name msg) = None"
    and "\<not> hasOwnProperty Object_prototype (m_name msg)"
  shows "process env dispatch msg (h, w) =
           (Inr (),
            h\<lparr>posted := posted h @
                 [ErrorReply (m_id msg) [(''message'', JString ''View is not initialized'')]]\<rparr>,
            w)"
  using assms by (simp add: process_def post_def get_prop_def hasOwnProperty_def)

text \<open>
  Claim C8.  The claim expects the reply \<^verbatim>\<open>View is not initialized\<close> for every name
  that is not in the registry of Views.  The guard of \<^verbatim>\<open>process\<close> tests the value read
  from the registry, which is an object literal: under a name that is not registered but
  is the name of a member of \<^verbatim>\<open>Object.prototype\<close> (\<^verbatim>\<open>constructor\<close>, \<^verbatim>\<open>toString\<close>,
  ...) the value read is that member and the guard is passed.  When the member has no
  function under the requested method and the message does not subscribe, the call throws:
  a \<^verbatim>\<open>TypeError\<close> leaves \<^verbatim>\<open>process\<close>, and no reply is posted.  The instance after the
  theorem is the request of \<^verbatim>\<open>to_json\<close> on the name \<^verbatim>\<open>constructor\<close>, sent to a host
  without any View.
\<close>

theorem inherited_view_name_throws:
  assumes "cmd msg = ''view_method''" and "h_views h (m_name msg) = None"
    and "hasOwnProperty Object_prototype (m_name msg)"
    and "\<not> builtin_method env (m_name msg) (m_method msg)" and "\<not> m_subscribe msg"
  shows "process env dispatch msg (h, w) = (Inl TypeError, h, w)"
  using assms Object_prototype_truthy [OF assms(3)] by (simp add: process_def)

theorem inherited_view_name_throws_witness:
  "h_views empty_host ''constructor'' = None
   \<and> process plain_env idle_dispatch constructor_message (empty_host, empty_world) =
       (Inl TypeError, empty_host, empty_world)
   \<and> posted empty_host = []"
  using inherited_view_name_throws [of constructor_message empty_host plain_env idle_dispatch
      empty_world]
  by (simp add: constructor_message_def view_message_def empty_host_def plain_env_def
        hasOwnProperty_def Object_prototype_def)

end
